theory Spec2Isabelle
  imports Complex_Main
begin

section \<open>Python values\<close>

text \<open>
  The backend is Python. A value that travels through a tool call is a JSON value:
  \<open>None\<close>, a bool, an unbounded int, a float, a string, a list or a dict. A dict is
  an association list in insertion order, looked up with \<open>map_of\<close>.
  In the calculators below a Python float is modelled as a real number: arithmetic
  is exact, so the rounding error of binary floating point and the special values
  (NaN, the infinities) are outside these models. \<open>calculate_emi\<close> is modelled a
  second time in binary64 arithmetic (\<open>calculate_emi_binary64\<close>), which shows where
  the exact model and the code part.
\<close>

datatype pyval =
    PNone
  | PBool bool
  | PInt int
  | PFloat real
  | PStr string
  | PList "pyval list"
  | PDict "(string \<times> pyval) list"

type_synonym pydict = "(string \<times> pyval) list"

text \<open>An exception carries the text that \<open>str(e)\<close> gives.\<close>

datatype pyexc =
    ZeroDivisionError string
  | OverflowError string
  | TypeError string
  | ValueError string
  | KeyError string
  | AttributeError string
  | UpstreamError string

fun exc_str :: "pyexc \<Rightarrow> string" where
  "exc_str (ZeroDivisionError m) = m"
| "exc_str (OverflowError m) = m"
| "exc_str (TypeError m) = m"
| "exc_str (ValueError m) = m"
| "exc_str (KeyError m) = m"
| "exc_str (AttributeError m) = m"
| "exc_str (UpstreamError m) = m"

text \<open>\<open>a / b\<close> on floats: a zero divisor raises.\<close>

definition py_div :: "real \<Rightarrow> real \<Rightarrow> pyexc + real" where
  "py_div a b = (if b = 0 then Inl (ZeroDivisionError ''float division by zero'') else Inr (a / b))"

text \<open>
  \<open>round(x, ndigits)\<close> on a float: the nearest multiple of \<open>10^-ndigits\<close>, a tie
  going to the even neighbour.
\<close>

definition round_half_even :: "real \<Rightarrow> int" where
  "round_half_even x =
     (let f = \<lfloor>x\<rfloor>; d = x - of_int f
      in if d < 1 / 2 then f
         else if 1 / 2 < d then f + 1
         else if even f then f else f + 1)"

definition py_round :: "real \<Rightarrow> nat \<Rightarrow> real" where
  "py_round x ndigits = of_int (round_half_even (x * 10 ^ ndigits)) / 10 ^ ndigits"

subsection \<open>Formatting numbers in f-strings\<close>

definition digit_char :: "nat \<Rightarrow> char" where
  "digit_char d =
     (if d = 0 then CHR ''0'' else if d = 1 then CHR ''1'' else if d = 2 then CHR ''2''
      else if d = 3 then CHR ''3'' else if d = 4 then CHR ''4'' else if d = 5 then CHR ''5''
      else if d = 6 then CHR ''6'' else if d = 7 then CHR ''7'' else if d = 8 then CHR ''8''
      else CHR ''9'')"

fun digits :: "nat \<Rightarrow> string" where
  "digits n = (if n < 10 then [digit_char n] else digits (n div 10) @ [digit_char (n mod 10)])"

text \<open>The \<open>,\<close> option: a comma before every group of three digits, from the right.\<close>

fun group3_rev :: "string \<Rightarrow> string" where
  "group3_rev (a # b # c # d # ds) = a # b # c # CHR '','' # group3_rev (d # ds)"
| "group3_rev ds = ds"

definition group3 :: "string \<Rightarrow> string" where
  "group3 ds = rev (group3_rev (rev ds))"

definition zero_pad :: "nat \<Rightarrow> string \<Rightarrow> string" where
  "zero_pad k ds = replicate (k - length ds) CHR ''0'' @ ds"

text \<open>
  \<open>format(x, ",.kf")\<close> (\<open>comma\<close> set) and \<open>format(x, ".kf")\<close>: fixed point with
  \<open>k\<close> decimals, rounded half to even; a negative value keeps its sign even when
  it rounds to zero.
\<close>

definition fmt_f :: "bool \<Rightarrow> nat \<Rightarrow> real \<Rightarrow> string" where
  "fmt_f comma k x =
     (let scaled = nat (round_half_even (\<bar>x\<bar> * 10 ^ k));
          ip = digits (scaled div 10 ^ k);
          fp = zero_pad k (digits (scaled mod 10 ^ k))
      in (if x < 0 then ''-'' else '''')
         @ (if comma then group3 ip else ip)
         @ (if k = 0 then '''' else CHR ''.'' # fp))"

subsection \<open>Dict access, truth values and the exception monad\<close>

definition exc_bind :: "pyexc + 'a \<Rightarrow> ('a \<Rightarrow> pyexc + 'b) \<Rightarrow> pyexc + 'b" where
  "exc_bind m f = (case m of Inl e \<Rightarrow> Inl e | Inr v \<Rightarrow> f v)"

text \<open>\<open>k in d\<close>, \<open>d.get(k, default)\<close> and \<open>d[k]\<close>.\<close>

definition has_key :: "pydict \<Rightarrow> string \<Rightarrow> bool" where
  "has_key d k = (map_of d k \<noteq> None)"

definition dict_get :: "pydict \<Rightarrow> string \<Rightarrow> pyval \<Rightarrow> pyval" where
  "dict_get d k dflt = (case map_of d k of None \<Rightarrow> dflt | Some v \<Rightarrow> v)"

definition getitem :: "pydict \<Rightarrow> string \<Rightarrow> pyexc + pyval" where
  "getitem d k = (case map_of d k of None \<Rightarrow> Inl (KeyError k) | Some v \<Rightarrow> Inr v)"

text \<open>The truth value of an object in a condition.\<close>

fun truthy :: "pyval \<Rightarrow> bool" where
  "truthy PNone = False"
| "truthy (PBool b) = b"
| "truthy (PInt i) = (i \<noteq> 0)"
| "truthy (PFloat x) = (x \<noteq> 0)"
| "truthy (PStr s) = (s \<noteq> [])"
| "truthy (PList xs) = (xs \<noteq> [])"
| "truthy (PDict d) = (d \<noteq> [])"

text \<open>
  The numeric value of an object in float arithmetic (a bool is an int); anything
  else raises \<open>TypeError\<close>.
\<close>

fun as_float :: "pyval \<Rightarrow> pyexc + real" where
  "as_float (PInt i) = Inr (of_int i)"
| "as_float (PFloat x) = Inr x"
| "as_float (PBool b) = Inr (if b then 1 else 0)"
| "as_float v = Inl (TypeError ''unsupported operand type(s)'')"

text \<open>An object under an \<open>f\<close> format code: numbers only.\<close>

fun fmt_val :: "bool \<Rightarrow> nat \<Rightarrow> pyval \<Rightarrow> pyexc + string" where
  "fmt_val comma k (PInt i) = Inr (fmt_f comma k (of_int i))"
| "fmt_val comma k (PFloat x) = Inr (fmt_f comma k x)"
| "fmt_val comma k (PBool b) = Inr (fmt_f comma k (if b then 1 else 0))"
| "fmt_val comma k (PStr s) = Inl (ValueError ''Unknown format code f for object of type str'')"
| "fmt_val comma k v = Inl (TypeError ''unsupported format string passed to __format__'')"

section \<open>Calculator library (tools.py)\<close>

text \<open>
  Every calculator returns a dict: the success payload, or a dict with the key
  \<open>error\<close>. A raised exception is the left injection.
\<close>

definition calculate_emi :: "real \<Rightarrow> real \<Rightarrow> int \<Rightarrow> pyexc + pydict" where
  "calculate_emi loan_amount interest_rate tenure_years =
     (if loan_amount \<le> 0 then Inr [(''error'', PStr ''Loan amount must be positive'')]
      else if tenure_years \<le> 0 \<or> tenure_years > 25
        then Inr [(''error'', PStr ''Tenure must be between 1 and 25 years'')]
      else if interest_rate < 0
        then Inr [(''error'', PStr ''Interest rate cannot be negative'')]
      else
        let monthly_rate = (interest_rate / 100) / 12;
            num_months = tenure_years * 12
        in case (if monthly_rate = 0 then py_div loan_amount (of_int num_months)
                 else py_div (loan_amount * monthly_rate * ((1 + monthly_rate) ^ nat num_months))
                             (((1 + monthly_rate) ^ nat num_months) - 1)) of
             Inl e \<Rightarrow> Inl e
           | Inr emi \<Rightarrow>
               let total_amount = emi * of_int num_months;
                   total_interest = total_amount - loan_amount
               in Inr [(''emi'', PFloat (py_round emi 2)),
                       (''total_amount'', PFloat (py_round total_amount 2)),
                       (''total_interest'', PFloat (py_round total_interest 2)),
                       (''loan_amount'', PFloat loan_amount),
                       (''interest_rate'', PFloat interest_rate),
                       (''tenure_years'', PInt tenure_years),
                       (''tenure_months'', PInt num_months)])"

definition check_ltv :: "real \<Rightarrow> real \<Rightarrow> pyexc + pydict" where
  "check_ltv property_price down_payment =
     (if property_price \<le> 0 then Inr [(''error'', PStr ''Property price must be positive'')]
      else if down_payment < 0 then Inr [(''error'', PStr ''Down payment cannot be negative'')]
      else if down_payment \<ge> property_price
        then Inr [(''error'', PStr ''Down payment cannot exceed property price'')]
      else
        let loan_amount = property_price - down_payment
        in case py_div loan_amount property_price of
             Inl e \<Rightarrow> Inl e
           | Inr q \<Rightarrow>
               let ltv_ratio = q * 100;
                   max_ltv = (80 :: int);
                   max_loanable = property_price * (of_int max_ltv / 100);
                   min_down_payment_required = property_price - max_loanable;
                   is_valid = (ltv_ratio \<le> of_int max_ltv)
               in Inr [(''ltv_ratio'', PFloat (py_round ltv_ratio 2)),
                       (''loan_amount'', PFloat (py_round loan_amount 2)),
                       (''max_loanable'', PFloat (py_round max_loanable 2)),
                       (''min_down_payment_required'', PFloat (py_round min_down_payment_required 2)),
                       (''is_valid'', PBool is_valid),
                       (''property_price'', PFloat property_price),
                       (''down_payment'', PFloat down_payment),
                       (''message'', PStr (if is_valid then ''Valid''
                          else ''LTV exceeds '' @ digits (nat max_ltv)
                               @ ''%. Minimum down payment required: ''
                               @ fmt_f True 0 min_down_payment_required @ '' AED''))])"

definition calculate_upfront_costs :: "real \<Rightarrow> pyexc + pydict" where
  "calculate_upfront_costs property_price =
     (if property_price \<le> 0 then Inr [(''error'', PStr ''Property price must be positive'')]
      else
        let transfer_fee = property_price * (4 / 100);
            agency_fee = property_price * (2 / 100);
            misc_fee = property_price * (1 / 100);
            total_upfront = transfer_fee + agency_fee + misc_fee
        in Inr [(''property_price'', PFloat property_price),
                (''transfer_fee'', PFloat (py_round transfer_fee 2)),
                (''agency_fee'', PFloat (py_round agency_fee 2)),
                (''misc_fee'', PFloat (py_round misc_fee 2)),
                (''total_upfront_costs'', PFloat (py_round total_upfront 2)),
                (''percentage'', PFloat 7),
                (''total_with_costs'', PFloat (py_round (property_price + total_upfront) 2))])"

definition affordability_reason :: "string \<Rightarrow> real \<Rightarrow> string" where
  "affordability_reason emi_text affordability_ratio =
     ''EMI ('' @ emi_text @ '' AED) is '' @ fmt_f False 1 affordability_ratio
     @ ''% of income. Recommended max is 30%.''"

text \<open>
  The decision block of \<open>buy_vs_rent_analysis\<close>: the recommendation and the first
  reason, from the stay duration and the monthly costs.
\<close>

definition decision_logic :: "int \<Rightarrow> pyval \<Rightarrow> real \<Rightarrow> real \<Rightarrow> pyexc + (string \<times> string list)" where
  "decision_logic stay_years total_upfront monthly_ownership_cost monthly_rent =
     (if stay_years < 3 then
        exc_bind (fmt_val True 0 total_upfront) (\<lambda>t.
          Inr (''RENT'',
               [''Planning to stay less than 3 years. Transaction costs ('' @ t
                @ '' AED) would outweigh benefits.'']))
      else if stay_years > 5 then
        Inr (''BUY'',
             [''Planning to stay more than 5 years. Equity buildup and long-term savings favor buying.''])
      else if monthly_ownership_cost < monthly_rent then
        Inr (''BUY'',
             [''Monthly ownership cost ('' @ fmt_f True 0 monthly_ownership_cost
              @ '' AED) is less than rent ('' @ fmt_f True 0 monthly_rent @ '' AED).''])
      else
        Inr (''RENT'',
             [''Monthly rent ('' @ fmt_f True 0 monthly_rent
              @ '' AED) is less than ownership cost ('' @ fmt_f True 0 monthly_ownership_cost
              @ '' AED) for now.'']))"

definition buy_vs_rent_analysis ::
  "real \<Rightarrow> real \<Rightarrow> int \<Rightarrow> real \<Rightarrow> real \<Rightarrow> real \<Rightarrow> pyexc + pydict" where
  "buy_vs_rent_analysis monthly_rent property_price stay_years income down_payment interest_rate =
     (if monthly_rent \<le> 0 then Inr [(''error'', PStr ''Monthly rent must be positive'')]
      else if property_price \<le> 0 then Inr [(''error'', PStr ''Property price must be positive'')]
      else if stay_years \<le> 0 then Inr [(''error'', PStr ''Stay duration must be positive'')]
      else if income \<le> 0 then Inr [(''error'', PStr ''Income must be positive'')]
      else
        let loan_amount = property_price - down_payment
        in exc_bind (check_ltv property_price down_payment) (\<lambda>ltv_check.
           if \<not> truthy (dict_get ltv_check ''is_valid'' (PBool False))
           then Inr [(''error'', dict_get ltv_check ''message'' (PStr ''Invalid LTV ratio'')),
                     (''ltv_details'', PDict ltv_check)]
           else
           exc_bind (calculate_emi loan_amount interest_rate 25) (\<lambda>emi_result.
           if has_key emi_result ''error'' then Inr emi_result
           else
           exc_bind (getitem emi_result ''emi'') (\<lambda>emi.
           let monthly_interest = (loan_amount * interest_rate / 100) / 12;
               maintenance_estimate = property_price * (1 / 1000) / 12;
               monthly_ownership_cost = monthly_interest + maintenance_estimate
           in
           exc_bind (calculate_upfront_costs property_price) (\<lambda>upfront_costs.
           exc_bind (getitem upfront_costs ''total_upfront_costs'') (\<lambda>total_upfront.
           exc_bind (decision_logic stay_years total_upfront monthly_ownership_cost monthly_rent)
             (\<lambda>(recommendation, reasoning).
           exc_bind (as_float emi) (\<lambda>emi_num.
           exc_bind (py_div emi_num income) (\<lambda>q.
           let affordability_ratio = q * 100;
               is_affordable = (affordability_ratio \<le> 30)
           in
           exc_bind
             (if \<not> is_affordable then
                exc_bind (fmt_val True 0 emi) (\<lambda>e.
                  Inr (''RENT'', reasoning @ [affordability_reason e affordability_ratio]))
              else Inr (recommendation, reasoning))
             (\<lambda>(recommendation, reasoning).
           Inr [(''recommendation'', PStr recommendation),
                (''reasoning'', PList (map PStr reasoning)),
                (''monthly_rent'', PFloat monthly_rent),
                (''monthly_ownership_cost'', PFloat (py_round monthly_ownership_cost 2)),
                (''monthly_interest'', PFloat (py_round monthly_interest 2)),
                (''maintenance_estimate'', PFloat (py_round maintenance_estimate 2)),
                (''emi'', emi),
                (''affordability_ratio'', PFloat (py_round affordability_ratio 2)),
                (''is_affordable'', PBool is_affordable),
                (''stay_years'', PInt stay_years),
                (''upfront_costs'', total_upfront),
                (''ltv_details'', PDict ltv_check),
                (''emi_details'', PDict emi_result)]))))))))))"

subsection \<open>The EMI formula as the specification words it\<close>

text \<open>
  Monthly rate \<open>i = r/1200\<close>, months \<open>m = 12n\<close>; \<open>EMI = P/m\<close> when \<open>i = 0\<close>,
  else \<open>P i (1+i)^m / ((1+i)^m - 1)\<close>. This is the unrounded value.
\<close>

definition spec_emi :: "real \<Rightarrow> real \<Rightarrow> int \<Rightarrow> real" where
  "spec_emi P r n =
     (let i = r / 1200; m = nat (12 * n)
      in if i = 0 then P / real m
         else P * i * (1 + i) ^ m / ((1 + i) ^ m - 1))"

section \<open>\<open>calculate_emi\<close> in binary64 arithmetic\<close>

text \<open>
  A Python float is an IEEE 754 binary64 number: a finite value with a significand
  of 53 bits and a binary exponent between \<open>-1022\<close> and \<open>1023\<close> (subnormal values
  below), an infinity, or NaN. A finite value is the real number it denotes; the
  sign of a zero is not modelled.
\<close>

datatype float64 = Fin real | PInf | NInf | NaN

definition pow2 :: "int \<Rightarrow> real" where
  "pow2 e = (if 0 \<le> e then 2 ^ nat e else 1 / 2 ^ nat (- e))"

text \<open>
  The binary exponent of \<open>x > 0\<close>, the \<open>e\<close> with \<open>2^e \<le> x < 2^(e+1)\<close>: by
  halving down to \<open>[1, 2)\<close> when \<open>x \<ge> 1\<close>, by doubling up to it when \<open>x < 1\<close>.
\<close>

function floor_log2 :: "real \<Rightarrow> int" where
  "floor_log2 x = (if x < 2 then 0 else 1 + floor_log2 (x / 2))"
  by pat_completeness auto
termination
proof (relation "measure (\<lambda>x. nat \<lceil>x\<rceil>)")
  show "wf (measure (\<lambda>x::real. nat \<lceil>x\<rceil>))" by simp
next
  fix x :: real
  assume "\<not> x < 2"
  then have "x / 2 \<le> of_int (\<lceil>x\<rceil> - 1)" by linarith
  then have "\<lceil>x / 2\<rceil> \<le> \<lceil>x\<rceil> - 1" by (simp only: ceiling_le_iff)
  moreover have "0 < \<lceil>x\<rceil>" using \<open>\<not> x < 2\<close> by linarith
  ultimately show "(x / 2, x) \<in> measure (\<lambda>x. nat \<lceil>x\<rceil>)" by simp
qed

function doublings :: "real \<Rightarrow> int" where
  "doublings x = (if x \<le> 0 \<or> 1 \<le> x then 0 else 1 + doublings (2 * x))"
  by pat_completeness auto
termination
proof (relation "measure (\<lambda>x. nat \<lceil>1 / x\<rceil>)")
  show "wf (measure (\<lambda>x::real. nat \<lceil>1 / x\<rceil>))" by simp
next
  fix x :: real
  assume "\<not> (x \<le> 0 \<or> 1 \<le> x)"
  then have x: "0 < x" "x < 1" by auto
  then have "1 < 1 / x" by simp
  then have c: "2 \<le> \<lceil>1 / x\<rceil>" by linarith
  have "1 / (2 * x) = (1 / x) / 2" by simp
  also have "\<dots> \<le> of_int \<lceil>1 / x\<rceil> / 2" by (simp add: divide_right_mono)
  also have "\<dots> \<le> of_int (\<lceil>1 / x\<rceil> - 1)" using c by simp
  finally have "\<lceil>1 / (2 * x)\<rceil> \<le> \<lceil>1 / x\<rceil> - 1" by (simp only: ceiling_le_iff)
  with c x show "(2 * x, x) \<in> measure (\<lambda>x. nat \<lceil>1 / x\<rceil>)" by simp
qed

declare floor_log2.simps [simp del]
declare doublings.simps [simp del]

definition binary_exponent :: "real \<Rightarrow> int" where
  "binary_exponent x = (if 1 \<le> x then floor_log2 x else - doublings x)"

text \<open>
  Rounding a real number to binary64, to nearest with ties to even: the result is a
  multiple of the unit in the last place, \<open>2^(e-52)\<close> for the exponent \<open>e\<close> of the
  number (\<open>-1022\<close> for a subnormal one); a result of magnitude \<open>2^1024\<close> or more is
  an infinity.
\<close>

definition round_binary64 :: "real \<Rightarrow> float64" where
  "round_binary64 x =
     (if x = 0 then Fin 0
      else
        let e = max (binary_exponent \<bar>x\<bar>) (- 1022);
            ulp = pow2 (e - 52);
            y = of_int (round_half_even (x / ulp)) * ulp
        in if pow2 1024 \<le> \<bar>y\<bar> then (if 0 < x then PInf else NInf) else Fin y)"

text \<open>
  The arithmetic of IEEE 754: the exact result, rounded. \<open>fdiv\<close> is read for a
  divisor other than zero only.
\<close>

fun fneg :: "float64 \<Rightarrow> float64" where
  "fneg (Fin a) = Fin (- a)"
| "fneg PInf = NInf"
| "fneg NInf = PInf"
| "fneg NaN = NaN"

fun fadd :: "float64 \<Rightarrow> float64 \<Rightarrow> float64" where
  "fadd NaN y = NaN"
| "fadd x NaN = NaN"
| "fadd (Fin a) (Fin b) = round_binary64 (a + b)"
| "fadd (Fin a) y = y"
| "fadd x (Fin b) = x"
| "fadd x y = (if x = y then x else NaN)"

definition fsub :: "float64 \<Rightarrow> float64 \<Rightarrow> float64" where
  "fsub x y = fadd x (fneg y)"

fun fmul :: "float64 \<Rightarrow> float64 \<Rightarrow> float64" where
  "fmul NaN y = NaN"
| "fmul x NaN = NaN"
| "fmul (Fin a) (Fin b) = round_binary64 (a * b)"
| "fmul (Fin a) y = (if a = 0 then NaN else if 0 < a then y else fneg y)"
| "fmul x (Fin b) = (if b = 0 then NaN else if 0 < b then x else fneg x)"
| "fmul x y = (if x = y then PInf else NInf)"

fun fdiv :: "float64 \<Rightarrow> float64 \<Rightarrow> float64" where
  "fdiv NaN y = NaN"
| "fdiv x NaN = NaN"
| "fdiv (Fin a) (Fin b) = round_binary64 (a / b)"
| "fdiv (Fin a) y = Fin 0"
| "fdiv x (Fin b) = (if 0 < b then x else fneg x)"
| "fdiv x y = NaN"

text \<open>\<open>x <= y\<close>, \<open>x < y\<close> and \<open>x == y\<close>: every comparison with NaN is false.\<close>

fun fle :: "float64 \<Rightarrow> float64 \<Rightarrow> bool" where
  "fle NaN y = False"
| "fle x NaN = False"
| "fle (Fin a) (Fin b) = (a \<le> b)"
| "fle NInf y = True"
| "fle x PInf = True"
| "fle x y = False"

fun flt :: "float64 \<Rightarrow> float64 \<Rightarrow> bool" where
  "flt NaN y = False"
| "flt x NaN = False"
| "flt (Fin a) (Fin b) = (a < b)"
| "flt x y = (x \<noteq> y \<and> fle x y)"

definition feq :: "float64 \<Rightarrow> float64 \<Rightarrow> bool" where
  "feq x y = (x \<noteq> NaN \<and> x = y)"

text \<open>
  The operations of Python on floats. An int operand (\<open>100\<close>, \<open>12\<close>, \<open>1\<close>,
  \<open>num_months\<close>) is converted to the float of the same value. \<open>x / y\<close> raises for
  a zero divisor. \<open>x ** n\<close> calls the C library's \<open>pow\<close>, taken here as correctly
  rounded, and raises \<open>OverflowError\<close> when a finite base gives a result out of
  range. \<open>round(x, ndigits)\<close> rounds the exact value of \<open>x\<close> to \<open>ndigits\<close>
  decimals, half to even, and returns the float nearest to that; an infinity and NaN
  round to themselves.
\<close>

definition float_of_int :: "int \<Rightarrow> float64" where
  "float_of_int n = round_binary64 (of_int n)"

definition float_truediv :: "float64 \<Rightarrow> float64 \<Rightarrow> pyexc + float64" where
  "float_truediv x y =
     (if y = Fin 0 then Inl (ZeroDivisionError ''float division by zero'') else Inr (fdiv x y))"

definition out_of_range :: string where
  "out_of_range =
     ''(34, '' @ [CHR 0x27] @ ''Numerical result out of range'' @ [CHR 0x27] @ '')''"

definition float_pow :: "float64 \<Rightarrow> int \<Rightarrow> pyexc + float64" where
  "float_pow v n =
     (if n = 0 then Inr (Fin 1)
      else case v of
        NaN \<Rightarrow> Inr NaN
      | PInf \<Rightarrow> Inr (if 0 < n then PInf else Fin 0)
      | NInf \<Rightarrow> Inr (if n < 0 then Fin 0 else if odd n then NInf else PInf)
      | Fin a \<Rightarrow>
          if a = 0 then
            (if n < 0 then Inl (ZeroDivisionError ''0.0 cannot be raised to a negative power'')
             else Inr (Fin 0))
          else
            (case round_binary64 (if 0 < n then a ^ nat n else 1 / a ^ nat (- n)) of
               Fin r \<Rightarrow> Inr (Fin r)
             | _ \<Rightarrow> Inl (OverflowError out_of_range)))"

fun float_round :: "float64 \<Rightarrow> nat \<Rightarrow> float64" where
  "float_round (Fin a) ndigits = round_binary64 (py_round a ndigits)"
| "float_round x ndigits = x"

text \<open>
  \<open>calculate_emi\<close> of tools.py, lines 31 to 61, with these operations. The
  arguments have the annotated types: two floats and an int. The numerator
  \<open>loan_amount * monthly_rate * (1 + monthly_rate) ** num_months\<close> and the
  denominator \<open>(1 + monthly_rate) ** num_months - 1\<close> are evaluated in this order,
  the power twice.
\<close>

datatype payload_value = VFloat float64 | VInt int | VStr string

definition calculate_emi_binary64 ::
  "float64 \<Rightarrow> float64 \<Rightarrow> int \<Rightarrow> pyexc + (string \<times> payload_value) list" where
  "calculate_emi_binary64 loan_amount interest_rate tenure_years =
     (if fle loan_amount (Fin 0) then Inr [(''error'', VStr ''Loan amount must be positive'')]
      else if tenure_years \<le> 0 \<or> tenure_years > 25
        then Inr [(''error'', VStr ''Tenure must be between 1 and 25 years'')]
      else if flt interest_rate (Fin 0)
        then Inr [(''error'', VStr ''Interest rate cannot be negative'')]
      else
        exc_bind (float_truediv interest_rate (float_of_int 100)) (\<lambda>percent.
        exc_bind (float_truediv percent (float_of_int 12)) (\<lambda>monthly_rate.
        let num_months = tenure_years * 12
        in
        exc_bind
          (if feq monthly_rate (Fin 0) then float_truediv loan_amount (float_of_int num_months)
           else
             exc_bind (float_pow (fadd (Fin 1) monthly_rate) num_months) (\<lambda>growth.
             exc_bind (float_pow (fadd (Fin 1) monthly_rate) num_months) (\<lambda>growth_again.
             float_truediv (fmul (fmul loan_amount monthly_rate) growth)
                           (fsub growth_again (Fin 1))))) (\<lambda>emi.
        let total_amount = fmul emi (float_of_int num_months);
            total_interest = fsub total_amount loan_amount
        in Inr [(''emi'', VFloat (float_round emi 2)),
                (''total_amount'', VFloat (float_round total_amount 2)),
                (''total_interest'', VFloat (float_round total_interest 2)),
                (''loan_amount'', VFloat loan_amount),
                (''interest_rate'', VFloat interest_rate),
                (''tenure_years'', VInt tenure_years),
                (''tenure_months'', VInt num_months)]))))"

section \<open>Conversation session store (state.py)\<close>

text \<open>
  \<open>ConversationState\<close> holds one dict, from session id to session. The session id
  (a fresh UUID) and the timestamps (the clock) come from the environment and are
  arguments here.
\<close>

record stored_message =
  msg_role :: string
  msg_content :: string
  msg_timestamp :: string

record session =
  s_messages :: "stored_message list"
  s_created_at :: string
  s_user_data :: pydict

record ConversationState =
  conversations :: "string \<rightharpoonup> session"

definition create_session :: "ConversationState \<Rightarrow> string \<Rightarrow> string \<Rightarrow> string \<times> ConversationState" where
  "create_session self session_id now =
     (session_id,
      self\<lparr>conversations := (conversations self)(session_id \<mapsto>
        \<lparr>s_messages = [], s_created_at = now, s_user_data = []\<rparr>)\<rparr>)"

definition add_message ::
  "ConversationState \<Rightarrow> string \<Rightarrow> string \<Rightarrow> string \<Rightarrow> string \<Rightarrow> pyexc + ConversationState" where
  "add_message self session_id role content now =
     (case conversations self session_id of
        None \<Rightarrow> Inl (ValueError (''Session '' @ session_id @ '' not found''))
      | Some sess \<Rightarrow>
          Inr (self\<lparr>conversations := (conversations self)(session_id \<mapsto>
                 sess\<lparr>s_messages := s_messages sess
                   @ [\<lparr>msg_role = role, msg_content = content, msg_timestamp = now\<rparr>]\<rparr>)\<rparr>))"

definition get_history :: "ConversationState \<Rightarrow> string \<Rightarrow> pydict list" where
  "get_history self session_id =
     (case conversations self session_id of
        None \<Rightarrow> []
      | Some sess \<Rightarrow>
          map (\<lambda>msg. [(''role'', PStr (msg_role msg)), (''content'', PStr (msg_content msg))])
              (s_messages sess))"

definition session_exists :: "ConversationState \<Rightarrow> string \<Rightarrow> bool" where
  "session_exists self session_id = (conversations self session_id \<noteq> None)"

section \<open>Argument validator and tool dispatcher (agent.py)\<close>

text \<open>
  What the Python library does and this repository does not define is a parameter:
  \<open>repr\<close> of a float, list or dict, the JSON reader and writer, and the parsers
  behind \<open>int(s)\<close> and \<open>float(s)\<close> (\<open>None\<close> where they raise \<open>ValueError\<close>, and
  where \<open>json.loads\<close> raises \<open>JSONDecodeError\<close>).
\<close>

record pylib =
  py_repr :: "pyval \<Rightarrow> string"
  json_loads :: "string \<Rightarrow> pyval option"
  json_dumps :: "pyval \<Rightarrow> string"
  py_int :: "string \<Rightarrow> int option"
  py_float :: "string \<Rightarrow> real option"

text \<open>\<open>str(value)\<close>, as an f-string without a format code renders a value.\<close>

definition py_str :: "pylib \<Rightarrow> pyval \<Rightarrow> string" where
  "py_str lib v =
     (case v of
        PNone \<Rightarrow> ''None''
      | PBool b \<Rightarrow> (if b then ''True'' else ''False'')
      | PInt i \<Rightarrow> (if i < 0 then ''-'' else []) @ digits (nat \<bar>i\<bar>)
      | PStr s \<Rightarrow> s
      | _ \<Rightarrow> py_repr lib v)"

text \<open>\<open>sep.join(parts)\<close>.\<close>

fun py_join :: "string \<Rightarrow> string list \<Rightarrow> string" where
  "py_join sep [] = []"
| "py_join sep [x] = x"
| "py_join sep (x # y # ys) = x @ sep @ py_join sep (y # ys)"

definition positive_params :: "(string \<times> string list) list" where
  "positive_params =
     [(''calculate_emi'', [''loan_amount'']),
      (''check_ltv'', [''property_price'']),
      (''calculate_upfront_costs'', [''property_price'']),
      (''buy_vs_rent_analysis'',
         [''property_price'', ''monthly_rent'', ''income'', ''down_payment'', ''stay_years''])]"

definition required_params :: "(string \<times> string list) list" where
  "required_params =
     [(''calculate_emi'', [''loan_amount'', ''tenure_years'']),
      (''check_ltv'', [''property_price'', ''down_payment'']),
      (''calculate_upfront_costs'', [''property_price'']),
      (''buy_vs_rent_analysis'',
         [''monthly_rent'', ''property_price'', ''stay_years'', ''income'', ''down_payment''])]"

text \<open>
  \<open>isinstance(value, (int, float))\<close>: a bool is an int. \<open>value <= 0\<close> is read only
  for such a value.
\<close>

fun is_number :: "pyval \<Rightarrow> bool" where
  "is_number (PInt i) = True"
| "is_number (PFloat x) = True"
| "is_number (PBool b) = True"
| "is_number v = False"

fun le_zero :: "pyval \<Rightarrow> bool" where
  "le_zero (PInt i) = (i \<le> 0)"
| "le_zero (PFloat x) = (x \<le> 0)"
| "le_zero (PBool b) = (\<not> b)"
| "le_zero v = False"

definition not_positive :: "pyval \<Rightarrow> bool" where
  "not_positive v = (\<not> is_number v \<or> le_zero v)"

definition invalid_entry :: "pylib \<Rightarrow> string \<Rightarrow> pyval \<Rightarrow> string" where
  "invalid_entry lib param v =
     param @ '' (got '' @ py_str lib v @ '', must be positive)''"

text \<open>The loop over the positive parameters that collects the list \<open>invalid\<close>.\<close>

fun collect_invalid :: "pylib \<Rightarrow> pydict \<Rightarrow> string list \<Rightarrow> string list" where
  "collect_invalid lib arguments [] = []"
| "collect_invalid lib arguments (param # params) =
     (case map_of arguments param of
        None \<Rightarrow> collect_invalid lib arguments params
      | Some v \<Rightarrow>
          (if not_positive v
           then invalid_entry lib param v # collect_invalid lib arguments params
           else collect_invalid lib arguments params))"

definition validate_tool_arguments :: "pylib \<Rightarrow> string \<Rightarrow> pydict \<Rightarrow> bool \<times> string" where
  "validate_tool_arguments lib tool_name arguments =
     (case map_of required_params tool_name of
        None \<Rightarrow> (True, [])
      | Some required \<Rightarrow>
          let missing = filter (\<lambda>param. \<not> has_key arguments param) required
          in if missing \<noteq> [] then
               (False, ''Missing required parameters: '' @ py_join '', '' missing)
             else
               (case map_of positive_params tool_name of
                  None \<Rightarrow> (True, [])
                | Some positive \<Rightarrow>
                    let invalid = collect_invalid lib arguments positive
                    in if invalid \<noteq> [] then
                         (False, ''Cannot execute tool: Invalid parameter values - ''
                            @ py_join '', '' invalid
                            @ ''. Please ask the user for missing information before calling this tool.'')
                       else (True, [])))"

text \<open>
  The registry \<open>TOOL_FUNCTIONS\<close> maps a tool name to a function of the keyword
  arguments. \<open>execute_tool\<close> is written over any registry; the registry of this
  repository follows.
\<close>

type_synonym tool_function = "pydict \<Rightarrow> pyexc + pydict"

definition try_except :: "pyexc + 'a \<Rightarrow> (pyexc \<Rightarrow> pyexc + 'a) \<Rightarrow> pyexc + 'a" where
  "try_except body handler = (case body of Inl e \<Rightarrow> handler e | Inr v \<Rightarrow> Inr v)"

definition execute_tool ::
  "pylib \<Rightarrow> (string \<rightharpoonup> tool_function) \<Rightarrow> string \<Rightarrow> pydict \<Rightarrow> pyexc + pydict" where
  "execute_tool lib tool_functions tool_name arguments =
     (case tool_functions tool_name of
        None \<Rightarrow> Inr [(''error'', PStr (''Unknown tool: '' @ tool_name))]
      | Some func \<Rightarrow>
          (case validate_tool_arguments lib tool_name arguments of
             (is_valid, error_msg) \<Rightarrow>
               if \<not> is_valid then Inr [(''error'', PStr error_msg)]
               else try_except (func arguments)
                      (\<lambda>e. Inr [(''error'', PStr (''Tool execution failed: '' @ exc_str e))])))"

subsection \<open>The calculators as registry entries\<close>

text \<open>
  \<open>func(**arguments)\<close> binds the dict to the parameters of \<open>func\<close>: a key that is
  no parameter raises \<open>TypeError\<close>, and so does a parameter without default that has
  no key. The calculators take floats, and ints for the two durations; the models
  above are typed so, and an int given for a float parameter is read as the float of
  the same value. A value of another type (a string, \<open>None\<close>, a list, a dict, or a
  float with a fraction for a duration) is outside these types, and the entry raises
  \<open>TypeError\<close> for it at the binding. Python raises \<open>TypeError\<close> for a string,
  \<open>None\<close>, a list or a dict only at the first comparison or operation that reads it
  (an earlier guard may return its payload first), and it computes with a fractional
  duration; the entries are exact for arguments of the declared types only.
\<close>

definition quoted :: "string \<Rightarrow> string" where
  "quoted s = CHR 0x27 # s @ [CHR 0x27]"

fun name_list :: "string list \<Rightarrow> string" where
  "name_list [] = []"
| "name_list [a] = quoted a"
| "name_list [a, b] = quoted a @ '' and '' @ quoted b"
| "name_list (a # b # c # ds) =
     py_join '', '' (map quoted (butlast (a # b # c # ds)))
     @ '', and '' @ quoted (last (a # b # c # ds))"

definition bind_keywords :: "string \<Rightarrow> string list \<Rightarrow> string list \<Rightarrow> pydict \<Rightarrow> pyexc + unit" where
  "bind_keywords fname required optional arguments =
     (case filter (\<lambda>k. k \<notin> set (required @ optional)) (map fst arguments) of
        k # ks \<Rightarrow> Inl (TypeError (fname @ ''() got an unexpected keyword argument '' @ quoted k))
      | [] \<Rightarrow>
          (case filter (\<lambda>p. \<not> has_key arguments p) required of
             [] \<Rightarrow> Inr ()
           | m # ms \<Rightarrow>
               Inl (TypeError (fname @ ''() missing '' @ digits (length (m # ms))
                      @ '' required positional argument''
                      @ (if ms = [] then '': '' else ''s: '') @ name_list (m # ms)))))"

fun int_arg :: "pyval \<Rightarrow> pyexc + int" where
  "int_arg (PInt i) = Inr i"
| "int_arg (PBool b) = Inr (if b then 1 else 0)"
| "int_arg (PFloat x) =
     (if of_int \<lfloor>x\<rfloor> = x then Inr \<lfloor>x\<rfloor> else Inl (TypeError ''unsupported operand type(s)''))"
| "int_arg v = Inl (TypeError ''unsupported operand type(s)'')"

definition call_calculate_emi :: tool_function where
  "call_calculate_emi arguments =
     exc_bind (bind_keywords ''calculate_emi''
                 [''loan_amount'', ''interest_rate'', ''tenure_years''] [] arguments) (\<lambda>u.
     exc_bind (as_float (dict_get arguments ''loan_amount'' PNone)) (\<lambda>loan_amount.
     exc_bind (int_arg (dict_get arguments ''tenure_years'' PNone)) (\<lambda>tenure_years.
     exc_bind (as_float (dict_get arguments ''interest_rate'' PNone)) (\<lambda>interest_rate.
     calculate_emi loan_amount interest_rate tenure_years))))"

definition call_check_ltv :: tool_function where
  "call_check_ltv arguments =
     exc_bind (bind_keywords ''check_ltv'' [''property_price'', ''down_payment''] [] arguments) (\<lambda>u.
     exc_bind (as_float (dict_get arguments ''property_price'' PNone)) (\<lambda>property_price.
     exc_bind (as_float (dict_get arguments ''down_payment'' PNone)) (\<lambda>down_payment.
     check_ltv property_price down_payment)))"

definition call_calculate_upfront_costs :: tool_function where
  "call_calculate_upfront_costs arguments =
     exc_bind (bind_keywords ''calculate_upfront_costs'' [''property_price''] [] arguments) (\<lambda>u.
     exc_bind (as_float (dict_get arguments ''property_price'' PNone)) (\<lambda>property_price.
     calculate_upfront_costs property_price))"

definition call_buy_vs_rent_analysis :: tool_function where
  "call_buy_vs_rent_analysis arguments =
     exc_bind (bind_keywords ''buy_vs_rent_analysis''
                 [''monthly_rent'', ''property_price'', ''stay_years'', ''income'', ''down_payment'']
                 [''interest_rate''] arguments) (\<lambda>u.
     exc_bind (as_float (dict_get arguments ''monthly_rent'' PNone)) (\<lambda>monthly_rent.
     exc_bind (as_float (dict_get arguments ''property_price'' PNone)) (\<lambda>property_price.
     exc_bind (int_arg (dict_get arguments ''stay_years'' PNone)) (\<lambda>stay_years.
     exc_bind (as_float (dict_get arguments ''income'' PNone)) (\<lambda>income.
     exc_bind (as_float (dict_get arguments ''down_payment'' PNone)) (\<lambda>down_payment.
     exc_bind (as_float (dict_get arguments ''interest_rate'' (PFloat 4.5))) (\<lambda>interest_rate.
     buy_vs_rent_analysis monthly_rent property_price stay_years income down_payment
       interest_rate)))))))"

definition TOOL_FUNCTIONS :: "string \<rightharpoonup> tool_function" where
  "TOOL_FUNCTIONS =
     map_of [(''calculate_emi'', call_calculate_emi),
             (''check_ltv'', call_check_ltv),
             (''calculate_upfront_costs'', call_calculate_upfront_costs),
             (''buy_vs_rent_analysis'', call_buy_vs_rent_analysis)]"

section \<open>Orchestration loop (main.py)\<close>

text \<open>
  A string is a list of characters, one per code point. The only code point
  outside ASCII that the code writes is the bullet U+2022; it is the character
  \<open>0x95\<close> here.
\<close>

definition newline :: string where
  "newline = [CHR 0x0A]"

definition bullet :: string where
  "bullet = [CHR 0x95]"

subsection \<open>String arguments that look like numbers\<close>

fun convert_value :: "pylib \<Rightarrow> pyval \<Rightarrow> pyval"
  and convert_items :: "pylib \<Rightarrow> (string \<times> pyval) list \<Rightarrow> (string \<times> pyval) list" where
  "convert_value lib (PStr s) =
     (if CHR ''.'' \<in> set s
      then (case py_float lib s of Some x \<Rightarrow> PFloat x | None \<Rightarrow> PStr s)
      else (case py_int lib s of Some i \<Rightarrow> PInt i | None \<Rightarrow> PStr s))"
| "convert_value lib (PDict d) = PDict (convert_items lib d)"
| "convert_value lib PNone = PNone"
| "convert_value lib (PBool b) = PBool b"
| "convert_value lib (PInt i) = PInt i"
| "convert_value lib (PFloat x) = PFloat x"
| "convert_value lib (PList xs) = PList xs"
| "convert_items lib [] = []"
| "convert_items lib ((key, v) # rest) = (key, convert_value lib v) # convert_items lib rest"

text \<open>\<open>data.items()\<close> needs a dict: any other JSON value raises \<open>AttributeError\<close>.\<close>

definition convert_strings_to_numbers :: "pylib \<Rightarrow> pyval \<Rightarrow> pyexc + pydict" where
  "convert_strings_to_numbers lib data =
     (case data of
        PDict d \<Rightarrow> Inr (convert_items lib d)
      | _ \<Rightarrow> Inl (AttributeError ''object has no attribute items''))"

subsection \<open>The summary of tool results\<close>

text \<open>Iterating over a value, as the list comprehension over \<open>reasoning\<close> does.\<close>

fun py_iter :: "pyval \<Rightarrow> pyexc + pyval list" where
  "py_iter (PList xs) = Inr xs"
| "py_iter (PStr s) = Inr (map (\<lambda>c. PStr [c]) s)"
| "py_iter (PDict d) = Inr (map (\<lambda>kv. PStr (fst kv)) d)"
| "py_iter v = Inl (TypeError ''object is not iterable'')"

text \<open>What one tool result adds to \<open>response_parts\<close>.\<close>

definition format_one :: "pylib \<Rightarrow> pydict \<Rightarrow> pyexc + string list" where
  "format_one lib tool_result =
     (let tool_name = dict_get tool_result ''tool_name'' (PStr []);
          res = dict_get tool_result ''result'' (PDict [])
      in case res of
           PDict result \<Rightarrow>
             if has_key result ''error'' then Inr []
             else if tool_name = PStr ''calculate_emi'' then
               (let emi = dict_get result ''emi'' (PInt 0);
                    total_amount = dict_get result ''total_amount'' (PInt 0);
                    total_interest = dict_get result ''total_interest'' (PInt 0);
                    loan_amount = dict_get result ''loan_amount'' (PInt 0);
                    tenure_years = dict_get result ''tenure_years'' (PInt 0)
                in exc_bind (fmt_val True 0 loan_amount) (\<lambda>la.
                   exc_bind (fmt_val True 2 emi) (\<lambda>e.
                   exc_bind (fmt_val True 2 total_amount) (\<lambda>ta.
                   exc_bind (fmt_val True 2 total_interest) (\<lambda>ti.
                   Inr [''For a loan of '' @ la @ '' AED at 4.5% interest over ''
                        @ py_str lib tenure_years @ '' years:'' @ newline @ newline
                        @ bullet @ '' Monthly EMI: '' @ e @ '' AED'' @ newline
                        @ bullet @ '' Total amount payable: '' @ ta @ '' AED'' @ newline
                        @ bullet @ '' Total interest: '' @ ti @ '' AED''])))))
             else if tool_name = PStr ''check_ltv'' then
               (let ltv_ratio = dict_get result ''ltv_ratio'' (PInt 0);
                    is_valid = dict_get result ''is_valid'' (PBool False);
                    min_down_payment = dict_get result ''min_down_payment_required'' (PInt 0)
                in if truthy is_valid then
                     exc_bind (fmt_val False 1 ltv_ratio) (\<lambda>l.
                     Inr [''Your LTV ratio is '' @ l
                          @ ''%, which meets UAE expat requirements (maximum 80%).''])
                   else
                     exc_bind (fmt_val False 1 ltv_ratio) (\<lambda>l.
                     exc_bind (fmt_val True 0 min_down_payment) (\<lambda>m.
                     Inr [''Your LTV ratio is '' @ l
                          @ ''%, which exceeds the 80% limit for expats. You'' @ [CHR 0x27]
                          @ ''ll need a minimum down payment of '' @ m @ '' AED.''])))
             else if tool_name = PStr ''calculate_upfront_costs'' then
               (let total_costs = dict_get result ''total_upfront_costs'' (PInt 0);
                    property_price = dict_get result ''property_price'' (PInt 0)
                in exc_bind (fmt_val True 0 property_price) (\<lambda>pp.
                   exc_bind (fmt_val True 0 total_costs) (\<lambda>tc.
                   Inr [''For a property worth '' @ pp
                        @ '' AED, the upfront costs are approximately '' @ tc
                        @ '' AED (7% of property price: 4% transfer fee, 2% agency fee, 1% miscellaneous).''])))
             else if tool_name = PStr ''buy_vs_rent_analysis'' then
               (let recommendation = dict_get result ''recommendation'' (PStr []);
                    reasoning = dict_get result ''reasoning'' (PList []);
                    emi = dict_get result ''emi'' (PInt 0);
                    first = [''Based on your situation, I recommend: **''
                             @ py_str lib recommendation @ ''**'' @ newline @ newline]
                in exc_bind (if truthy reasoning then
                               exc_bind (py_iter reasoning) (\<lambda>rs.
                                 Inr [py_join newline (map (\<lambda>r. bullet @ '' '' @ py_str lib r) rs)])
                             else Inr []) (\<lambda>second.
                   exc_bind (if truthy emi then
                               exc_bind (fmt_val True 2 emi) (\<lambda>e.
                                 Inr [newline @ newline @ ''Your estimated monthly EMI would be ''
                                      @ e @ '' AED.''])
                             else Inr []) (\<lambda>third.
                   Inr (first @ second @ third))))
             else Inr []
         | _ \<Rightarrow> Inl (TypeError ''argument is not a dict''))"

fun format_parts :: "pylib \<Rightarrow> pydict list \<Rightarrow> string list \<Rightarrow> pyexc + string list" where
  "format_parts lib [] response_parts = Inr response_parts"
| "format_parts lib (tool_result # rest) response_parts =
     (case format_one lib tool_result of
        Inl e \<Rightarrow> Inl e
      | Inr parts \<Rightarrow> format_parts lib rest (response_parts @ parts))"

definition format_tool_results_response :: "pylib \<Rightarrow> pydict list \<Rightarrow> pyexc + string" where
  "format_tool_results_response lib tool_results =
     (if tool_results = [] then Inr []
      else case format_parts lib tool_results [] of
             Inl e \<Rightarrow> Inl e
           | Inr response_parts \<Rightarrow>
               Inr (if response_parts \<noteq> [] then py_join (newline @ newline) response_parts else []))"

subsection \<open>The LLM's answer and the events sent to the client\<close>

text \<open>
  The completion service is outside the repository. An answer carries an optional
  text and the requested tool calls (\<open>None\<close> and the empty list are both the empty
  list here: the code only tests \<open>if message.tool_calls\<close>). The service is a
  function of the round trip's number and of the transcript it is sent; it may raise.
\<close>

record tool_call =
  tc_id :: string
  tc_name :: string
  tc_arguments :: string

record llm_message =
  content :: "string option"
  tool_calls :: "tool_call list"

type_synonym llm_service = "nat \<Rightarrow> pydict list \<Rightarrow> pyexc + llm_message"

datatype event = Content string | Done | Error string

text \<open>
  The local variables of \<open>stream_chat_response\<close>, the events yielded so far, and
  \<open>requests\<close>, the transcripts sent to the LLM so far (one per round trip).
\<close>

record loop_state =
  messages :: "pydict list"
  full_response :: string
  tool_results_list :: "pydict list"
  events :: "event list"
  requests :: "pydict list list"

definition max_iterations :: nat where
  "max_iterations = 5"

definition chunk_size :: nat where
  "chunk_size = 10"

function chunks :: "nat \<Rightarrow> string \<Rightarrow> string list" where
  "chunks n s = (if n = 0 \<or> s = [] then [] else take n s # chunks n (drop n s))"
  by pat_completeness auto
termination
  by (relation "measure (\<lambda>(n, s). length s)") auto

text \<open>Sending a text in chunks: each chunk is added to \<open>full_response\<close> and yielded.\<close>

definition stream_text :: "string \<Rightarrow> loop_state \<Rightarrow> loop_state" where
  "stream_text txt st =
     st\<lparr>full_response := full_response st @ concat (chunks chunk_size txt),
        events := events st @ map Content (chunks chunk_size txt)\<rparr>"

subsection \<open>One pass over the requested tool calls\<close>

definition parse_arguments :: "pylib \<Rightarrow> string \<Rightarrow> pyexc + pydict" where
  "parse_arguments lib raw =
     (case json_loads lib raw of
        None \<Rightarrow> Inr []
      | Some data \<Rightarrow> convert_strings_to_numbers lib data)"

type_synonym valid_call = "tool_call \<times> string \<times> pydict"
type_synonym invalid_call = "tool_call \<times> string \<times> pydict \<times> string"

definition skipped_result :: "string \<Rightarrow> pydict" where
  "skipped_result error_msg = [(''error'', PStr error_msg), (''skipped'', PBool True)]"

definition result_entry :: "string \<Rightarrow> pydict \<Rightarrow> pydict \<Rightarrow> pydict" where
  "result_entry tool_name arguments res =
     [(''tool_name'', PStr tool_name), (''arguments'', PDict arguments), (''result'', PDict res)]"

definition call_data :: "tool_call \<Rightarrow> string \<Rightarrow> pyval" where
  "call_data tc tool_name =
     PDict [(''id'', PStr (tc_id tc)), (''type'', PStr ''function''),
            (''function'', PDict [(''name'', PStr tool_name),
                                  (''arguments'', PStr (tc_arguments tc))])]"

definition tool_message :: "pylib \<Rightarrow> tool_call \<Rightarrow> pydict \<Rightarrow> pydict" where
  "tool_message lib tc res =
     [(''role'', PStr ''tool''), (''tool_call_id'', PStr (tc_id tc)),
      (''content'', PStr (json_dumps lib (PDict res)))]"

definition assistant_message :: "string \<Rightarrow> pyval list \<Rightarrow> pydict" where
  "assistant_message assistant_content tool_calls_data =
     [(''role'', PStr ''assistant''), (''content'', PStr assistant_content),
      (''tool_calls'', PList tool_calls_data)]"

text \<open>
  The first loop: parse and validate every call; a call that fails validation goes
  to \<open>invalid_tool_calls\<close> and its skipped result to \<open>tool_results_list\<close>.
\<close>

fun classify_tool_calls ::
  "pylib \<Rightarrow> tool_call list \<Rightarrow> valid_call list \<times> invalid_call list \<times> pydict list
     \<Rightarrow> pyexc + (valid_call list \<times> invalid_call list \<times> pydict list)" where
  "classify_tool_calls lib [] acc = Inr acc"
| "classify_tool_calls lib (tc # rest) (valid_tool_calls, invalid_tool_calls, results) =
     (let tool_name = tc_name tc
      in case parse_arguments lib (tc_arguments tc) of
           Inl e \<Rightarrow> Inl e
         | Inr arguments \<Rightarrow>
             (case validate_tool_arguments lib tool_name arguments of
                (is_valid, error_msg) \<Rightarrow>
                  if is_valid then
                    classify_tool_calls lib rest
                      (valid_tool_calls @ [(tc, tool_name, arguments)], invalid_tool_calls, results)
                  else
                    classify_tool_calls lib rest
                      (valid_tool_calls,
                       invalid_tool_calls @ [(tc, tool_name, arguments, error_msg)],
                       results @ [result_entry tool_name arguments (skipped_result error_msg)])))"

text \<open>The second loop: execute the valid calls.\<close>

fun execute_valid ::
  "pylib \<Rightarrow> (string \<rightharpoonup> tool_function) \<Rightarrow> valid_call list
     \<Rightarrow> pydict list \<times> pyval list \<times> pydict list
     \<Rightarrow> pyexc + (pydict list \<times> pyval list \<times> pydict list)" where
  "execute_valid lib tool_functions [] acc = Inr acc"
| "execute_valid lib tool_functions ((tc, tool_name, arguments) # rest)
       (results, tool_calls_data, msgs) =
     (case execute_tool lib tool_functions tool_name arguments of
        Inl e \<Rightarrow> Inl e
      | Inr tool_result \<Rightarrow>
          execute_valid lib tool_functions rest
            (results @ [result_entry tool_name arguments tool_result],
             tool_calls_data @ [call_data tc tool_name],
             msgs @ [tool_message lib tc tool_result]))"

text \<open>The third loop: record the invalid calls with their error results.\<close>

fun record_invalid ::
  "pylib \<Rightarrow> invalid_call list \<Rightarrow> pyval list \<times> pydict list \<Rightarrow> pyval list \<times> pydict list" where
  "record_invalid lib [] acc = acc"
| "record_invalid lib ((tc, tool_name, arguments, error_msg) # rest) (tool_calls_data, msgs) =
     record_invalid lib rest
       (tool_calls_data @ [call_data tc tool_name],
        msgs @ [tool_message lib tc (skipped_result error_msg)])"

definition tool_pass ::
  "pylib \<Rightarrow> (string \<rightharpoonup> tool_function) \<Rightarrow> llm_message \<Rightarrow> string \<Rightarrow> loop_state
     \<Rightarrow> pyexc + loop_state" where
  "tool_pass lib tool_functions message assistant_content st =
     (case classify_tool_calls lib (tool_calls message) ([], [], tool_results_list st) of
        Inl e \<Rightarrow> Inl e
      | Inr (valid_tool_calls, invalid_tool_calls, results1) \<Rightarrow>
          (case execute_valid lib tool_functions valid_tool_calls (results1, [], messages st) of
             Inl e \<Rightarrow> Inl e
           | Inr (results2, tool_calls_data1, msgs1) \<Rightarrow>
               (case record_invalid lib invalid_tool_calls (tool_calls_data1, msgs1) of
                  (tool_calls_data, msgs2) \<Rightarrow>
                    Inr (st\<lparr>messages :=
                               (if tool_calls_data \<noteq> []
                                then msgs2 @ [assistant_message assistant_content tool_calls_data]
                                else msgs2),
                             tool_results_list := results2\<rparr>))))"

text \<open>Whether a requested call passes the validator, once its argument text is parsed.\<close>

definition passes_validation :: "pylib \<Rightarrow> tool_call \<Rightarrow> bool" where
  "passes_validation lib tc =
     (case parse_arguments lib (tc_arguments tc) of
        Inl e \<Rightarrow> False
      | Inr arguments \<Rightarrow> fst (validate_tool_arguments lib (tc_name tc) arguments))"

subsection \<open>The loop\<close>

text \<open>
  \<open>while iteration < max_iterations\<close>. The result is the exception that ended the
  loop, if one did, and the state; after an exception only the events and the
  requests of that state are read.
\<close>

definition content_or_empty :: "llm_message \<Rightarrow> string" where
  "content_or_empty message = (case content message of None \<Rightarrow> [] | Some c \<Rightarrow> c)"

definition record_request :: "loop_state \<Rightarrow> loop_state" where
  "record_request st = st\<lparr>requests := requests st @ [messages st]\<rparr>"

text \<open>The text that comes with tool calls is sent at once and added to \<open>full_response\<close>.\<close>

definition yield_initial :: "string \<Rightarrow> loop_state \<Rightarrow> loop_state" where
  "yield_initial assistant_content st =
     (if assistant_content \<noteq> []
      then st\<lparr>events := events st @ [Content assistant_content],
              full_response := full_response st @ assistant_content\<rparr>
      else st)"

function run_loop ::
  "pylib \<Rightarrow> (string \<rightharpoonup> tool_function) \<Rightarrow> llm_service \<Rightarrow> nat \<Rightarrow> loop_state
     \<Rightarrow> pyexc option \<times> loop_state" where
  "run_loop lib tool_functions llm iteration st =
     (if iteration < max_iterations then
        (let st1 = record_request st
         in case llm (iteration + 1) (messages st) of
              Inl e \<Rightarrow> (Some e, st1)
            | Inr message \<Rightarrow>
                (let assistant_content = content_or_empty message
                 in if tool_calls message \<noteq> [] then
                      (let st2 = yield_initial assistant_content st1
                       in case tool_pass lib tool_functions message assistant_content st2 of
                            Inl e \<Rightarrow> (Some e, st2)
                          | Inr st3 \<Rightarrow> run_loop lib tool_functions llm (iteration + 1) st3)
                    else
                      (None, if assistant_content \<noteq> [] then stream_text assistant_content st1
                             else st1)))
      else (None, st))"
  by pat_completeness auto
termination
  by (relation "measure (\<lambda>(lib, tool_functions, llm, iteration, st). max_iterations - iteration)")
     auto

subsection \<open>One user message\<close>

record advance_result =
  final_store :: ConversationState
  sent_events :: "event list"
  llm_requests :: "pydict list list"

definition basic_response :: string where
  "basic_response =
     ''I'' @ [CHR 0x27] @ ''ve calculated the information you requested. Please let me know if you need any clarification.''"

definition error_event :: "pyexc \<Rightarrow> event" where
  "error_event e = Error (''Error processing chat: '' @ exc_str e)"

text \<open>The code after the loop: the summary when there is no text, then the save.\<close>

definition finalize ::
  "pylib \<Rightarrow> string \<Rightarrow> ConversationState \<Rightarrow> string \<Rightarrow> loop_state \<Rightarrow> advance_result" where
  "finalize lib now cs session_id st =
     (case (if full_response st = [] \<and> tool_results_list st \<noteq> [] then
              (case format_tool_results_response lib (tool_results_list st) of
                 Inl e \<Rightarrow> Inl e
               | Inr formatted_response \<Rightarrow>
                   Inr (if formatted_response \<noteq> [] then stream_text formatted_response st else st))
            else Inr st) of
        Inl e \<Rightarrow>
          \<lparr>final_store = cs, sent_events = events st @ [error_event e], llm_requests = requests st\<rparr>
      | Inr st1 \<Rightarrow>
          if full_response st1 \<noteq> [] then
            (case add_message cs session_id ''assistant'' (full_response st1) now of
               Inl e \<Rightarrow>
                 \<lparr>final_store = cs, sent_events = events st1 @ [error_event e], llm_requests = requests st1\<rparr>
             | Inr cs1 \<Rightarrow>
                 \<lparr>final_store = cs1, sent_events = events st1 @ [Done], llm_requests = requests st1\<rparr>)
          else if tool_results_list st1 \<noteq> [] then
            (case add_message cs session_id ''assistant'' basic_response now of
               Inl e \<Rightarrow>
                 \<lparr>final_store = cs, sent_events = events st1 @ [error_event e], llm_requests = requests st1\<rparr>
             | Inr cs1 \<Rightarrow>
                 \<lparr>final_store = cs1, sent_events = events st1 @ [Content basic_response, Done],
                  llm_requests = requests st1\<rparr>)
          else
            \<lparr>final_store = cs, sent_events = events st1 @ [Done], llm_requests = requests st1\<rparr>)"

definition initial_messages :: "string \<Rightarrow> pydict list \<Rightarrow> pydict list" where
  "initial_messages system_prompt history =
     (if history = [] \<or> dict_get (hd history) ''role'' PNone \<noteq> PStr ''system''
      then [(''role'', PStr ''system''), (''content'', PStr system_prompt)] # history
      else history)"

text \<open>
  \<open>stream_chat_response\<close>: \<open>system_prompt\<close> is the constant \<open>SYSTEM_PROMPT\<close> of
  agent.py, \<open>now_user\<close> and \<open>now_assistant\<close> are the clock readings of the two
  saves. Any exception ends the call with an error event.
\<close>

definition stream_chat_response ::
  "pylib \<Rightarrow> (string \<rightharpoonup> tool_function) \<Rightarrow> llm_service \<Rightarrow> string \<Rightarrow> string \<Rightarrow> string
     \<Rightarrow> ConversationState \<Rightarrow> string \<Rightarrow> string \<Rightarrow> advance_result" where
  "stream_chat_response lib tool_functions llm system_prompt now_user now_assistant
       cs session_id user_message =
     (case add_message cs session_id ''user'' user_message now_user of
        Inl e \<Rightarrow> \<lparr>final_store = cs, sent_events = [error_event e], llm_requests = []\<rparr>
      | Inr cs1 \<Rightarrow>
          (let st0 = \<lparr>messages = initial_messages system_prompt (get_history cs1 session_id),
                      full_response = [], tool_results_list = [], events = [], requests = []\<rparr>
           in case run_loop lib tool_functions llm 0 st0 of
                (Some e, st) \<Rightarrow>
                  \<lparr>final_store = cs1, sent_events = events st @ [error_event e], llm_requests = requests st\<rparr>
              | (None, st) \<Rightarrow> finalize lib now_assistant cs1 session_id st))"

subsection \<open>A library for worked examples\<close>

text \<open>The worked examples below run with this library, which parses nothing.\<close>

definition plain_lib :: pylib where
  "plain_lib =
     \<lparr>py_repr = (\<lambda>v. ''<value>''), json_loads = (\<lambda>s. None), json_dumps = (\<lambda>v. ''<json>''),
      py_int = (\<lambda>s. None), py_float = (\<lambda>s. None)\<rparr>"

subsection \<open>The text the model supplied\<close>


subsection \<open>Worked examples\<close>

definition dq :: string where
  "dq = [CHR 0x22]"

text \<open>The JSON texts \<open>{"property_price": 0, "down_payment": 300000}\<close> and \<open>{"property_price": 1500000}\<close>.\<close>

definition ltv_arguments :: string where
  "ltv_arguments =
     ''{'' @ dq @ ''property_price'' @ dq @ '': 0, '' @ dq @ ''down_payment'' @ dq @ '': 300000}''"

definition costs_arguments :: string where
  "costs_arguments = ''{'' @ dq @ ''property_price'' @ dq @ '': 1500000}''"

definition example_lib :: pylib where
  "example_lib =
     plain_lib\<lparr>json_loads := (\<lambda>raw.
       if raw = ltv_arguments
         then Some (PDict [(''property_price'', PInt 0), (''down_payment'', PInt 300000)])
       else if raw = costs_arguments
         then Some (PDict [(''property_price'', PInt 1500000)])
       else None)\<rparr>"

text \<open>A store with one empty session.\<close>

definition example_store :: ConversationState where
  "example_store =
     \<lparr>conversations = [''s1'' \<mapsto> \<lparr>s_messages = [], s_created_at = ''t0'', s_user_data = []\<rparr>]\<rparr>"

text \<open>
  The model first requests \<open>check_ltv\<close> with a price of 0, then answers in words.
\<close>

definition ltv_llm :: llm_service where
  "ltv_llm k msgs =
     (if k = 1 then
        Inr \<lparr>content = None,
             tool_calls = [\<lparr>tc_id = ''call_1'', tc_name = ''check_ltv'',
                            tc_arguments = ltv_arguments\<rparr>]\<rparr>
      else Inr \<lparr>content = Some ''What is the property price?'', tool_calls = []\<rparr>)"



text \<open>The model requests \<open>calculate_upfront_costs\<close> on every round trip.\<close>

definition insisting_llm :: llm_service where
  "insisting_llm k msgs =
     Inr \<lparr>content = None,
          tool_calls = [\<lparr>tc_id = ''call_1'', tc_name = ''calculate_upfront_costs'',
                         tc_arguments = costs_arguments\<rparr>]\<rparr>"

text \<open>
  The model requests \<open>check_ltv\<close> with a price of 0 and \<open>calculate_upfront_costs\<close> in
  one answer, then answers in words.
\<close>

definition two_calls_llm :: llm_service where
  "two_calls_llm k msgs =
     (if k = 1 then
        Inr \<lparr>content = None,
             tool_calls = [\<lparr>tc_id = ''call_1'', tc_name = ''check_ltv'',
                            tc_arguments = ltv_arguments\<rparr>,
                           \<lparr>tc_id = ''call_2'', tc_name = ''calculate_upfront_costs'',
                            tc_arguments = costs_arguments\<rparr>]\<rparr>
      else Inr \<lparr>content = Some ''What is the property price?'', tool_calls = []\<rparr>)"

section \<open>Properties of the calculators\<close>


lemma round_half_even_close: "\<bar>of_int (round_half_even x) - x\<bar> \<le> 1 / 2"
  unfolding round_half_even_def Let_def
  by (auto; linarith)

lemma py_round_close: "\<bar>py_round x 2 - x\<bar> \<le> 1 / 200"
proof -
  have "\<bar>of_int (round_half_even (x * 100)) - x * 100\<bar> \<le> 1 / 2"
    by (rule round_half_even_close)
  then show ?thesis
    unfolding py_round_def by (simp add: field_simps abs_le_iff)
qed

lemma calculate_emi_payload:
  assumes "0 < P" and "0 \<le> r" and "1 \<le> n" and "n \<le> 25"
  shows "calculate_emi P r n =
           Inr [(''emi'', PFloat (py_round (spec_emi P r n) 2)),
                (''total_amount'', PFloat (py_round (spec_emi P r n * of_int (12 * n)) 2)),
                (''total_interest'', PFloat (py_round (spec_emi P r n * of_int (12 * n) - P) 2)),
                (''loan_amount'', PFloat P),
                (''interest_rate'', PFloat r), (''tenure_years'', PInt n),
                (''tenure_months'', PInt (12 * n))]"
proof (cases "r = 0")
  case True
  with assms show ?thesis
    by (simp add: calculate_emi_def spec_emi_def py_div_def Let_def mult.commute)
next
  case False
  with assms have rpos: "0 < r / 100 / 12" by simp
  have mpos: "0 < nat (n * 12)" using assms by simp
  have "1 < (1 + r / 100 / 12) ^ nat (n * 12)"
    using rpos mpos by (simp add: one_less_power)
  then have ne: "(1 + r / 100 / 12) ^ nat (n * 12) - 1 \<noteq> 0" by simp
  have r1200: "r / 1200 = r / 100 / 12" by simp
  show ?thesis
    using assms False ne
    by (simp add: calculate_emi_def spec_emi_def py_div_def Let_def mult.commute)
qed

text \<open>
  In exact arithmetic \<open>calculate_emi\<close> computes the formula: for a loan amount
  \<open>P > 0\<close>, an annual rate \<open>r \<ge> 0\<close> and a tenure \<open>1 \<le> n \<le> 25\<close> it returns the
  success payload, where the field \<open>emi\<close> is the formula's value rounded to 2
  decimals, \<open>total_amount\<close> is the unrounded EMI times \<open>12n\<close> rounded to 2 decimals,
  and \<open>total_interest\<close> is \<open>total_amount - P\<close> up to one cent. This is a statement
  about the real-number model only; the code computes in binary64, see
  \<open>calculate_emi_binary64\<close> below.
\<close>

lemma calculate_emi_exact_formula:
  assumes "0 < P" and "0 \<le> r" and "1 \<le> n" and "n \<le> 25"
  shows "\<exists>emi total interest.
           calculate_emi P r n =
             Inr [(''emi'', PFloat emi), (''total_amount'', PFloat total),
                  (''total_interest'', PFloat interest), (''loan_amount'', PFloat P),
                  (''interest_rate'', PFloat r), (''tenure_years'', PInt n),
                  (''tenure_months'', PInt (12 * n))]
         \<and> emi = py_round (spec_emi P r n) 2
         \<and> total = py_round (spec_emi P r n * of_int (12 * n)) 2
         \<and> \<bar>interest - (total - P)\<bar> \<le> 1 / 100"
proof -
  let ?t = "spec_emi P r n * of_int (12 * n)"
  have "\<bar>py_round (?t - P) 2 - (py_round ?t 2 - P)\<bar> \<le> 1 / 100"
    using py_round_close[of "?t - P"] py_round_close[of ?t] by linarith
  then show ?thesis
    using calculate_emi_payload[OF assms] by simp
qed

lemma check_ltv_payload:
  assumes "0 < V" and "0 \<le> D" and "D < V"
  shows "check_ltv V D =
           Inr [(''ltv_ratio'', PFloat (py_round ((V - D) / V * 100) 2)),
                (''loan_amount'', PFloat (py_round (V - D) 2)),
                (''max_loanable'', PFloat (py_round (0.8 * V) 2)),
                (''min_down_payment_required'', PFloat (py_round (0.2 * V) 2)),
                (''is_valid'', PBool ((V - D) / V * 100 \<le> 80)),
                (''property_price'', PFloat V),
                (''down_payment'', PFloat D),
                (''message'', PStr (if (V - D) / V * 100 \<le> 80 then ''Valid''
                    else ''LTV exceeds 80%. Minimum down payment required: ''
                         @ fmt_f True 0 (0.2 * V) @ '' AED''))]"
proof -
  have a: "V - V * (80 / 100) = 0.2 * V" by simp
  have b: "V * (80 / 100) = 0.8 * V" by simp
  have c: "digits (nat 80) = ''80''" by (simp add: digit_char_def)
  show ?thesis
    using assms unfolding check_ltv_def py_div_def Let_def a b c
    by (simp del: digits.simps add: mult.commute)
qed

lemma check_ltv_rejects:
  assumes "V \<le> 0 \<or> D < 0 \<or> V \<le> D"
  shows "\<exists>m. check_ltv V D = Inr [(''error'', PStr m)]"
  using assms by (auto simp: check_ltv_def)


lemma bvr_guard:
  assumes "R \<le> 0 \<or> V \<le> 0 \<or> y \<le> 0 \<or> I \<le> 0"
  shows "\<exists>m. buy_vs_rent_analysis R V y I D r = Inr [(''error'', PStr m)]"
  using assms unfolding buy_vs_rent_analysis_def
  by (elim disjE) simp_all

lemma bvr_bad_down_payment:
  assumes "0 < R" "0 < V" "0 < y" "0 < I" "D < 0 \<or> V \<le> D"
  shows "\<exists>m c. buy_vs_rent_analysis R V y I D r =
           Inr [(''error'', PStr m), (''ltv_details'', PDict c)]"
proof -
  obtain m where "check_ltv V D = Inr [(''error'', PStr m)]"
    using check_ltv_rejects[of V D] assms by auto
  with assms show ?thesis
    unfolding buy_vs_rent_analysis_def
    by (simp add: exc_bind_def dict_get_def)
qed

lemma bvr_ltv_exceeded:
  assumes "0 < R" "0 < V" "0 < y" "0 < I" "0 \<le> D" "D < V" "80 < (V - D) / V * 100"
  shows "\<exists>m c. buy_vs_rent_analysis R V y I D r =
           Inr [(''error'', PStr m), (''ltv_details'', PDict c)]"
proof -
  obtain c where c: "check_ltv V D = Inr c" "dict_get c ''is_valid'' (PBool False) = PBool False"
     "\<exists>m. dict_get c ''message'' (PStr ''Invalid LTV ratio'') = PStr m"
    using assms by (simp add: check_ltv_payload dict_get_def del: digits.simps)
  with assms show ?thesis
    unfolding buy_vs_rent_analysis_def
    by (simp add: exc_bind_def)
qed

lemma check_ltv_accepts:
  assumes "0 < V" "0 \<le> D" "D < V" "(V - D) / V * 100 \<le> 80"
  shows "\<exists>c. check_ltv V D = Inr c \<and> dict_get c ''is_valid'' (PBool False) = PBool True"
  using assms by (simp add: check_ltv_payload dict_get_def del: digits.simps)

lemma bvr_negative_rate:
  assumes "0 < R" "0 < V" "0 < y" "0 < I" "0 \<le> D" "D < V" "(V - D) / V * 100 \<le> 80" "r < 0"
  shows "\<exists>m. buy_vs_rent_analysis R V y I D r = Inr [(''error'', PStr m)]"
proof -
  obtain c where c: "check_ltv V D = Inr c" "dict_get c ''is_valid'' (PBool False) = PBool True"
    using check_ltv_accepts assms by blast
  have e: "calculate_emi (V - D) r 25 = Inr [(''error'', PStr ''Interest rate cannot be negative'')]"
    using assms by (simp add: calculate_emi_def)
  show ?thesis
    unfolding buy_vs_rent_analysis_def using assms c e
    by (simp add: exc_bind_def has_key_def)
qed



lemma bvr_rejects:
  assumes "R \<le> 0 \<or> V \<le> 0 \<or> y \<le> 0 \<or> I \<le> 0 \<or> D \<le> 0 \<or> V \<le> D \<or> 80 < (V - D) / V * 100 \<or> r < 0"
  shows "\<exists>d. buy_vs_rent_analysis R V y I D r = Inr d \<and> has_key d ''error''
             \<and> \<not> has_key d ''recommendation''"
proof (cases "R \<le> 0 \<or> V \<le> 0 \<or> y \<le> 0 \<or> I \<le> 0")
  case True
  from bvr_guard[OF this, of D r] show ?thesis by (auto simp: has_key_def)
next
  case guard: False
  show ?thesis
  proof (cases "D < 0 \<or> V \<le> D")
    case True
    with guard bvr_bad_down_payment[of R V y I D r] show ?thesis
      by (auto simp: has_key_def)
  next
    case dp: False
    show ?thesis
    proof (cases "80 < (V - D) / V * 100")
      case True
      with guard dp bvr_ltv_exceeded[of R V y I D r] show ?thesis
        by (auto simp: has_key_def)
    next
      case False
      have "D \<noteq> 0" using False guard by auto
      with assms guard dp False have "r < 0" by auto
      with guard dp False bvr_negative_rate[of R V y I D r] show ?thesis
        by (auto simp: has_key_def)
    qed
  qed
qed






text \<open>
  C7. If the monthly rent, the property price, the stay duration, the income or the down
  payment is not positive, \<open>buy_vs_rent_analysis\<close> returns a payload with the key
  \<open>error\<close> and without a recommendation; it does not raise.
\<close>

theorem buy_vs_rent_rejects_non_positive:
  assumes "R \<le> 0 \<or> V \<le> 0 \<or> y \<le> 0 \<or> I \<le> 0 \<or> D \<le> 0"
  shows "\<exists>d. buy_vs_rent_analysis R V y I D r = Inr d \<and> has_key d ''error''
             \<and> \<not> has_key d ''recommendation''"
  using assms by (intro bvr_rejects) blast

text \<open>A down payment of 0 with every other input positive.\<close>

theorem buy_vs_rent_rejects_non_positive_witness:
  "\<exists>d. buy_vs_rent_analysis 5000 1000000 7 20000 0 4.5 = Inr d \<and> has_key d ''error''
       \<and> \<not> has_key d ''recommendation''"
  using buy_vs_rent_rejects_non_positive[of 5000 1000000 7 20000 0 "4.5"] by simp

subsection \<open>\<open>calculate_emi\<close> in binary64 arithmetic\<close>

lemmas binary64_defs = round_binary64_def binary_exponent_def floor_log2.simps doublings.simps
  pow2_def round_half_even_def Let_def

lemma round_binary64_one: "round_binary64 1 = Fin 1"
  by (simp add: binary64_defs)

lemma float_pow_one:
  assumes "n \<noteq> 0"
  shows "float_pow (Fin 1) n = Inr (Fin 1)"
  using assms by (simp add: float_pow_def round_binary64_one)

lemma fsub_self_one: "fsub (Fin 1) (Fin 1) = Fin 0"
  by (simp add: fsub_def round_binary64_def)

text \<open>
  Whenever the monthly rate is not zero but is lost in the sum \<open>1 + monthly_rate\<close>,
  the power is 1, the denominator is 0 and the division raises, for every loan amount
  and every tenure of the domain.
\<close>

lemma calculate_emi_binary64_absorbed_rate:
  assumes "0 < P" and "1 \<le> n" and "n \<le> 25" and "0 \<le> r"
    and "float_truediv (Fin r) (float_of_int 100) = Inr percent"
    and "float_truediv percent (float_of_int 12) = Inr monthly_rate"
    and "\<not> feq monthly_rate (Fin 0)"
    and "fadd (Fin 1) monthly_rate = Fin 1"
  shows "calculate_emi_binary64 (Fin P) (Fin r) n =
           Inl (ZeroDivisionError ''float division by zero'')"
proof -
  have m: "n * 12 \<noteq> 0" using assms(2) by simp
  show ?thesis
    using assms
    by (simp add: calculate_emi_binary64_def exc_bind_def float_pow_one[OF m] fsub_self_one
          float_truediv_def[of _ "Fin 0"] Let_def)
qed

lemma floor_log2_bounds:
  assumes "1 \<le> x"
  shows "0 \<le> floor_log2 x \<and> 2 ^ nat (floor_log2 x) \<le> x \<and> x < 2 ^ (nat (floor_log2 x) + 1)"
  using assms
proof (induction x rule: floor_log2.induct)
  case (1 x)
  show ?case
  proof (cases "x < 2")
    case True
    with "1.prems" show ?thesis by (simp add: floor_log2.simps)
  next
    case False
    then have h: "1 \<le> x / 2" by simp
    from "1.IH"[OF False h]
    have ih: "0 \<le> floor_log2 (x / 2)" "2 ^ nat (floor_log2 (x / 2)) \<le> x / 2"
      "x / 2 < 2 ^ (nat (floor_log2 (x / 2)) + 1)"
      by simp_all
    have e: "floor_log2 x = 1 + floor_log2 (x / 2)"
      using False by (subst floor_log2.simps) simp
    have n: "nat (1 + floor_log2 (x / 2)) = Suc (nat (floor_log2 (x / 2)))"
      using ih(1) by simp
    show ?thesis
      unfolding e n using ih by simp
  qed
qed

lemma round_half_even_ge:
  assumes "of_int k \<le> x"
  shows "k \<le> round_half_even x"
proof -
  have "k \<le> \<lfloor>x\<rfloor>" using assms by (simp add: le_floor_iff)
  then show ?thesis
    by (auto simp: round_half_even_def Let_def)
qed

lemma round_binary64_overflow:
  assumes "2 ^ 1024 \<le> y"
  shows "round_binary64 y = PInf"
proof -
  have y1: "1 \<le> y"
  proof -
    have "(1::real) \<le> 2 ^ 1024" by (rule one_le_power) simp
    with assms show ?thesis by linarith
  qed
  define e where "e = floor_log2 y"
  from floor_log2_bounds[OF y1]
  have b: "0 \<le> e" "2 ^ nat e \<le> y" "y < 2 ^ (nat e + 1)"
    by (simp_all add: e_def)
  have "(2::real) ^ 1024 < 2 ^ (nat e + 1)" using assms b(3) by linarith
  then have "1024 < nat e + 1" by (simp only: power_strict_increasing_iff)
  then have e1024: "1024 \<le> e" by linarith
  then have ee: "nat e = nat (e - 52) + 52" by linarith
  define u :: real where "u = 2 ^ nat (e - 52)"
  have upos: "0 < u" by (simp add: u_def)
  have pe: "(2::real) ^ nat e = 2 ^ 52 * u"
    unfolding u_def by (subst ee) (simp only: power_add mult.commute)
  have "of_int (2 ^ 52) \<le> y / u"
    using b(2) upos unfolding pe by (simp add: le_divide_eq)
  then have r: "2 ^ 52 \<le> round_half_even (y / u)" by (rule round_half_even_ge)
  have "(2::real) ^ 1024 \<le> 2 ^ nat e"
    using e1024 by (intro power_increasing) auto
  also have "\<dots> = of_int (2 ^ 52) * u" unfolding pe by simp
  also have "\<dots> \<le> of_int (round_half_even (y / u)) * u"
  proof (rule mult_right_mono)
    show "(of_int (2 ^ 52) :: real) \<le> of_int (round_half_even (y / u))"
      using r by (simp only: of_int_le_iff)
    show "0 \<le> u" using upos by simp
  qed
  finally have big: "2 ^ 1024 \<le> of_int (round_half_even (y / u)) * u" .
  have abs: "\<bar>y\<bar> = y" "0 < y" "y \<noteq> 0" using y1 by simp_all
  have ex: "binary_exponent y = e"
    using y1 by (simp add: binary_exponent_def e_def)
  have mx: "max e (- 1022) = e" using b(1) by simp
  have p: "pow2 (e - 52) = u" using e1024 by (simp add: pow2_def u_def)
  have p1024: "pow2 1024 = 2 ^ 1024" by (simp add: pow2_def)
  have nn: "0 \<le> of_int (round_half_even (y / u)) * u"
    using big by (meson order_trans zero_le_numeral zero_le_power)
  show ?thesis
    unfolding round_binary64_def abs ex mx p Let_def p1024
    using big nn abs by (simp only: abs_of_nonneg if_True if_False)
qed

lemma float_pow_overflow:
  assumes "0 < a" and "0 < n" and "2 ^ 1024 \<le> a ^ nat n"
  shows "float_pow (Fin a) n = Inl (OverflowError out_of_range)"
  using assms by (simp add: float_pow_def round_binary64_overflow)

text \<open>
  Whenever the power \<open>(1 + monthly_rate) ^ num_months\<close> is \<open>2^1024\<close> or more, it
  is out of the range of binary64 and \<open>**\<close> raises \<open>OverflowError\<close>.
\<close>

lemma calculate_emi_binary64_overflow:
  assumes "0 < P" and "1 \<le> n" and "n \<le> 25" and "0 \<le> r"
    and "float_truediv (Fin r) (float_of_int 100) = Inr percent"
    and "float_truediv percent (float_of_int 12) = Inr monthly_rate"
    and "\<not> feq monthly_rate (Fin 0)"
    and "fadd (Fin 1) monthly_rate = Fin a" and "0 < a"
    and "2 ^ 1024 \<le> a ^ nat (n * 12)"
  shows "calculate_emi_binary64 (Fin P) (Fin r) n =
           Inl (OverflowError out_of_range)"
proof -
  have m: "0 < n * 12" using assms(2) by simp
  show ?thesis
    using assms(1-8)
    by (simp add: calculate_emi_binary64_def exc_bind_def
          float_pow_overflow[OF assms(9) m assms(10)] Let_def)
qed

text \<open>
  A rate of 18000 percent over 25 years: the monthly rate is 15 and the power is
  \<open>16^300 = 2^1200\<close>.
\<close>

lemma calculate_emi_large_rate_raises:
  "calculate_emi_binary64 (Fin 1000000) (Fin 18000) 25 =
     Inl (OverflowError out_of_range)"
proof -
  have a: "float_truediv (Fin 18000) (float_of_int 100) = Inr (Fin 180)"
    by (simp add: float_truediv_def float_of_int_def binary64_defs)
  have b: "float_truediv (Fin 180) (float_of_int 12) = Inr (Fin 15)"
    by (simp add: float_truediv_def float_of_int_def binary64_defs)
  have c: "fadd (Fin 1) (Fin 15) = Fin 16"
    by (simp add: binary64_defs)
  have "(2::real) ^ 1024 \<le> 2 ^ 1200" by (intro power_increasing) auto
  also have "\<dots> = (2 ^ 4) ^ 300" by (simp only: power_mult[symmetric]) simp
  finally have d: "(2::real) ^ 1024 \<le> 16 ^ nat (25 * 12)" by simp
  show ?thesis
    by (rule calculate_emi_binary64_overflow[OF _ _ _ _ a b _ c _ d]) (simp_all add: feq_def)
qed

text \<open>A loan of 1200 at rate 0 over one year: the zero-rate branch, as in exact arithmetic.\<close>

lemma calculate_emi_binary64_zero_rate:
  "calculate_emi_binary64 (Fin 1200) (Fin 0) 1 =
     Inr [(''emi'', VFloat (Fin 100)), (''total_amount'', VFloat (Fin 1200)),
          (''total_interest'', VFloat (Fin 0)), (''loan_amount'', VFloat (Fin 1200)),
          (''interest_rate'', VFloat (Fin 0)), (''tenure_years'', VInt 1),
          (''tenure_months'', VInt 12)]"
  by (simp add: calculate_emi_binary64_def exc_bind_def feq_def fsub_def float_truediv_def
        float_of_int_def float_pow_def py_round_def binary64_defs)

text \<open>
  C4 fails in the code inside its domain. For a loan of 1,000,000 over 25 years at
  the annual rate \<open>1e-13\<close> (the float nearest to \<open>10^-13\<close>, which is positive), the
  claim promises a success payload with the formula's EMI. In the code the monthly
  rate is a positive float, so the zero-rate branch is not taken; \<open>1 + monthly_rate\<close>
  rounds to 1, the power is 1, the denominator is 0, and the division raises
  \<open>ZeroDivisionError\<close>.
\<close>

theorem calculate_emi_tiny_rate_raises:
  "round_binary64 (1 / 10 ^ 13) = Fin (3961408125713217 / 2 ^ 95)
 \<and> calculate_emi_binary64 (Fin 1000000) (round_binary64 (1 / 10 ^ 13)) 25 =
     Inl (ZeroDivisionError ''float division by zero'')"
  by (simp add: calculate_emi_binary64_def exc_bind_def feq_def fsub_def float_truediv_def
        float_of_int_def float_pow_def binary64_defs)

section \<open>Properties of the session store\<close>

text \<open>
  C10. For a session id that is not in the store, \<open>get_history\<close> returns the empty
  list and \<open>add_message\<close> raises the session-not-found \<open>ValueError\<close>; the history read
  for the unknown id equals the history of a freshly created session.
\<close>

theorem unknown_session_history:
  assumes "conversations cs session_id = None"
  shows "get_history cs session_id = []
       \<and> (\<exists>m. add_message cs session_id role body now = Inl (ValueError m))
       \<and> get_history (snd (create_session cs new_id created)) new_id = get_history cs session_id"
  using assms by (simp add: get_history_def add_message_def create_session_def)

text \<open>The empty store has no session \<open>no-such-session\<close>.\<close>

theorem unknown_session_history_witness:
  "get_history \<lparr>conversations = Map.empty\<rparr> ''no-such-session'' = []
   \<and> (\<exists>m. add_message \<lparr>conversations = Map.empty\<rparr> ''no-such-session'' ''user'' ''hello'' ''t0''
            = Inl (ValueError m))
   \<and> get_history (snd (create_session \<lparr>conversations = Map.empty\<rparr> ''fresh'' ''t1'')) ''fresh''
       = get_history \<lparr>conversations = Map.empty\<rparr> ''no-such-session''"
  using unknown_session_history[of "\<lparr>conversations = Map.empty\<rparr>" "''no-such-session''"
          "''user''" "''hello''" "''t0''" "''fresh''" "''t1''"]
  by simp

section \<open>Properties of the validator and the dispatcher\<close>


lemma collect_invalid_sound:
  assumes "entry \<in> set (collect_invalid lib arguments params)"
  shows "\<exists>param v. param \<in> set params \<and> map_of arguments param = Some v \<and> not_positive v
           \<and> entry = invalid_entry lib param v"
  using assms by (induction params) (auto split: option.splits if_splits)




lemma execute_tool_returns:
  "\<exists>res. execute_tool lib tool_functions tool_name arguments = Inr res"
  by (auto simp: execute_tool_def try_except_def split: option.splits sum.splits prod.splits)

text \<open>
  C9. \<open>execute_tool\<close> returns a result for every registry, tool name and argument
  dict, and never raises: an unknown name gives the unknown-tool failure; a failed
  validation gives the validator's reason, whatever the registered function is (it
  is not called); an exception of the registered function becomes a failure with
  its message; otherwise the function's own result is returned.
\<close>

theorem execute_tool_total:
  "\<exists>res. execute_tool lib tool_functions tool_name arguments = Inr res
     \<and> (tool_functions tool_name = None \<longrightarrow>
          res = [(''error'', PStr (''Unknown tool: '' @ tool_name))])
     \<and> (tool_functions tool_name \<noteq> None
          \<and> \<not> fst (validate_tool_arguments lib tool_name arguments) \<longrightarrow>
          res = [(''error'', PStr (snd (validate_tool_arguments lib tool_name arguments)))]
          \<and> (\<forall>func. execute_tool lib (tool_functions(tool_name \<mapsto> func)) tool_name arguments
                       = Inr res))
     \<and> (\<forall>func e. tool_functions tool_name = Some func
          \<and> fst (validate_tool_arguments lib tool_name arguments)
          \<and> func arguments = Inl e \<longrightarrow>
          res = [(''error'', PStr (''Tool execution failed: '' @ exc_str e))])
     \<and> (\<forall>func r. tool_functions tool_name = Some func
          \<and> fst (validate_tool_arguments lib tool_name arguments)
          \<and> func arguments = Inr r \<longrightarrow> res = r)"
proof -
  obtain res where res: "execute_tool lib tool_functions tool_name arguments = Inr res"
    using execute_tool_returns by blast
  have unknown: "res = [(''error'', PStr (''Unknown tool: '' @ tool_name))]"
    if "tool_functions tool_name = None"
    using res that by (simp add: execute_tool_def)
  have invalid: "res = [(''error'', PStr (snd (validate_tool_arguments lib tool_name arguments)))]"
    if "tool_functions tool_name \<noteq> None" "\<not> fst (validate_tool_arguments lib tool_name arguments)"
    using res that by (auto simp: execute_tool_def split: prod.splits)
  have not_called: "execute_tool lib (tool_functions(tool_name \<mapsto> func)) tool_name arguments = Inr res"
    if "tool_functions tool_name \<noteq> None" "\<not> fst (validate_tool_arguments lib tool_name arguments)"
    for func
    using invalid[OF that] that by (auto simp: execute_tool_def split: prod.splits)
  have raised: "res = [(''error'', PStr (''Tool execution failed: '' @ exc_str e))]"
    if "tool_functions tool_name = Some func" "fst (validate_tool_arguments lib tool_name arguments)"
       "func arguments = Inl e" for func e
    using res that by (auto simp: execute_tool_def try_except_def split: prod.splits)
  have returned: "res = r"
    if "tool_functions tool_name = Some func" "fst (validate_tool_arguments lib tool_name arguments)"
       "func arguments = Inr r" for func r
    using res that by (auto simp: execute_tool_def try_except_def split: prod.splits)
  show ?thesis
  proof (intro exI[of _ res] conjI allI impI)
    show "execute_tool lib tool_functions tool_name arguments = Inr res" by (rule res)
  qed (use unknown invalid not_called raised returned in \<open>simp_all\<close>)
qed

lemma call_emi_missing_rate:
  "call_calculate_emi [(''loan_amount'', PInt 1000), (''tenure_years'', PInt 5)] =
     Inl (TypeError (''calculate_emi() missing 1 required positional argument: ''
                     @ quoted ''interest_rate''))"
  by (simp add: call_calculate_emi_def bind_keywords_def exc_bind_def has_key_def digit_char_def)

text \<open>
  The registry of the repository: an unknown name; \<open>check_ltv\<close> with a price of 0,
  which fails validation; and \<open>calculate_emi\<close> without \<open>interest_rate\<close>, which
  passes validation (the rate is not required there) and raises in the call,
  because the function has no default for it.
\<close>

theorem execute_tool_total_witness:
  "execute_tool plain_lib TOOL_FUNCTIONS ''get_weather'' [] =
     Inr [(''error'', PStr ''Unknown tool: get_weather'')]
 \<and> execute_tool plain_lib TOOL_FUNCTIONS ''check_ltv''
       [(''property_price'', PInt 0), (''down_payment'', PInt 100)] =
     Inr [(''error'', PStr ''Cannot execute tool: Invalid parameter values - property_price (got 0, must be positive). Please ask the user for missing information before calling this tool.'')]
 \<and> execute_tool plain_lib TOOL_FUNCTIONS ''calculate_emi''
       [(''loan_amount'', PInt 1000), (''tenure_years'', PInt 5)] =
     Inr [(''error'', PStr (''Tool execution failed: calculate_emi() missing 1 required positional argument: ''
                            @ quoted ''interest_rate''))]"
proof -
  have v1: "validate_tool_arguments plain_lib ''check_ltv''
              [(''property_price'', PInt 0), (''down_payment'', PInt 100)] =
      (False, ''Cannot execute tool: Invalid parameter values - property_price (got 0, must be positive). Please ask the user for missing information before calling this tool.'')"
    by (simp add: validate_tool_arguments_def required_params_def positive_params_def has_key_def
          not_positive_def invalid_entry_def py_str_def digit_char_def)
  have v2: "validate_tool_arguments plain_lib ''calculate_emi''
              [(''loan_amount'', PInt 1000), (''tenure_years'', PInt 5)] = (True, [])"
    by (simp add: validate_tool_arguments_def required_params_def positive_params_def has_key_def
          not_positive_def)
  have a: "execute_tool plain_lib TOOL_FUNCTIONS ''get_weather'' [] =
     Inr [(''error'', PStr ''Unknown tool: get_weather'')]"
    using execute_tool_total[of plain_lib TOOL_FUNCTIONS "''get_weather''" "[]"]
    by (auto simp: TOOL_FUNCTIONS_def)
  have b: "execute_tool plain_lib TOOL_FUNCTIONS ''check_ltv''
       [(''property_price'', PInt 0), (''down_payment'', PInt 100)] =
     Inr [(''error'', PStr ''Cannot execute tool: Invalid parameter values - property_price (got 0, must be positive). Please ask the user for missing information before calling this tool.'')]"
    using execute_tool_total[of plain_lib TOOL_FUNCTIONS "''check_ltv''"
            "[(''property_price'', PInt 0), (''down_payment'', PInt 100)]"] v1
    by (auto simp: TOOL_FUNCTIONS_def)
  have c: "execute_tool plain_lib TOOL_FUNCTIONS ''calculate_emi''
       [(''loan_amount'', PInt 1000), (''tenure_years'', PInt 5)] =
     Inr [(''error'', PStr (''Tool execution failed: calculate_emi() missing 1 required positional argument: ''
                            @ quoted ''interest_rate''))]"
    using execute_tool_total[of plain_lib TOOL_FUNCTIONS "''calculate_emi''"
            "[(''loan_amount'', PInt 1000), (''tenure_years'', PInt 5)]"] v2 call_emi_missing_rate
    by (auto simp: TOOL_FUNCTIONS_def)
  from a b c show ?thesis by blast
qed

section \<open>Properties of the orchestration loop\<close>

declare run_loop.simps [simp del]
declare chunks.simps [simp del]

lemma concat_chunks:
  assumes "0 < n"
  shows "concat (chunks n s) = s"
  using assms
proof (induction n s rule: chunks.induct)
  case (1 n s)
  show ?case
  proof (cases "s = []")
    case True
    then show ?thesis by (simp add: chunks.simps)
  next
    case False
    with 1 show ?thesis
      by (subst chunks.simps) simp
  qed
qed

lemma stream_text_simps:
  "full_response (stream_text txt st) = full_response st @ txt"
  "events (stream_text txt st) = events st @ map Content (chunks chunk_size txt)"
  "requests (stream_text txt st) = requests st"
  "tool_results_list (stream_text txt st) = tool_results_list st"
  "messages (stream_text txt st) = messages st"
  by (simp_all add: stream_text_def concat_chunks chunk_size_def)

lemma tool_pass_frame:
  assumes "tool_pass lib tool_functions message assistant_content st = Inr st'"
  shows "requests st' = requests st" and "events st' = events st"
    and "full_response st' = full_response st"
  using assms
  by (auto simp: tool_pass_def split: sum.splits prod.splits)

lemma run_loop_stop:
  assumes "\<not> iteration < max_iterations"
  shows "run_loop lib tool_functions llm iteration st = (None, st)"
  using assms by (simp add: run_loop.simps)

lemma run_loop_upstream:
  assumes "iteration < max_iterations" and "llm (iteration + 1) (messages st) = Inl e"
  shows "run_loop lib tool_functions llm iteration st = (Some e, record_request st)"
  using assms by (simp add: run_loop.simps)

lemma run_loop_answer:
  assumes "iteration < max_iterations" and "llm (iteration + 1) (messages st) = Inr message"
    and "tool_calls message = []"
  shows "run_loop lib tool_functions llm iteration st =
           (None, if content_or_empty message \<noteq> []
                  then stream_text (content_or_empty message) (record_request st)
                  else record_request st)"
  using assms by (simp add: run_loop.simps Let_def)

lemma run_loop_pass_fails:
  assumes "iteration < max_iterations" and "llm (iteration + 1) (messages st) = Inr message"
    and "tool_calls message \<noteq> []"
    and "tool_pass lib tool_functions message (content_or_empty message)
           (yield_initial (content_or_empty message) (record_request st)) = Inl e"
  shows "run_loop lib tool_functions llm iteration st =
           (Some e, yield_initial (content_or_empty message) (record_request st))"
  using assms by (simp add: run_loop.simps Let_def)

lemma run_loop_pass:
  assumes "iteration < max_iterations" and "llm (iteration + 1) (messages st) = Inr message"
    and "tool_calls message \<noteq> []"
    and "tool_pass lib tool_functions message (content_or_empty message)
           (yield_initial (content_or_empty message) (record_request st)) = Inr st3"
  shows "run_loop lib tool_functions llm iteration st =
           run_loop lib tool_functions llm (iteration + 1) st3"
  using assms by (simp add: run_loop.simps Let_def)

lemma yield_initial_simps:
  "requests (yield_initial c st) = requests st"
  "messages (yield_initial c st) = messages st"
  "tool_results_list (yield_initial c st) = tool_results_list st"
  "full_response (yield_initial c st) = full_response st @ c"
  by (simp_all add: yield_initial_def)

lemma record_request_simps:
  "requests (record_request st) = requests st @ [messages st]"
  "messages (record_request st) = messages st"
  "tool_results_list (record_request st) = tool_results_list st"
  "full_response (record_request st) = full_response st"
  "events (record_request st) = events st"
  by (simp_all add: record_request_def)

lemma run_loop_requests_bound:
  assumes "run_loop lib tool_functions llm iteration st = (exc, st')"
  shows "length (requests st') \<le> length (requests st) + (max_iterations - iteration)"
  using assms
proof (induction lib tool_functions llm iteration st rule: run_loop.induct)
  case (1 lib tool_functions llm iteration st)
  show ?case
  proof (cases "iteration < max_iterations")
    case False
    with "1.prems" show ?thesis
      by (simp add: run_loop_stop)
  next
    case lt: True
    show ?thesis
    proof (cases "llm (iteration + 1) (messages st)")
      case (Inl e)
      from "1.prems" lt show ?thesis
        unfolding run_loop_upstream[where llm=llm and iteration=iteration and st=st, OF lt Inl] by (auto simp: record_request_simps)
    next
      case (Inr message)
      show ?thesis
      proof (cases "tool_calls message = []")
        case True
        from "1.prems" lt show ?thesis
          unfolding run_loop_answer[where llm=llm and iteration=iteration and st=st, OF lt Inr True]
          by (auto simp: record_request_simps stream_text_simps split: if_splits)
      next
        case False
        let ?c = "content_or_empty message"
        let ?st2 = "yield_initial ?c (record_request st)"
        show ?thesis
        proof (cases "tool_pass lib tool_functions message ?c ?st2")
          case (Inl e)
          from "1.prems" lt show ?thesis
            unfolding run_loop_pass_fails[where llm=llm and iteration=iteration and st=st, OF lt Inr False Inl]
            by (auto simp: record_request_simps yield_initial_simps)
        next
          case pass: (Inr st3)
          from "1.prems"
          have run: "run_loop lib tool_functions llm (iteration + 1) st3 = (exc, st')"
            unfolding run_loop_pass[where llm=llm and iteration=iteration and st=st, OF lt Inr False pass] .
          have "length (requests st') \<le> length (requests st3) + (max_iterations - (iteration + 1))"
            by (rule "1.IH"[OF lt refl Inr refl False refl pass run])
          moreover have "requests st3 = requests st @ [messages st]"
            using tool_pass_frame(1)[OF pass]
            by (simp add: record_request_simps yield_initial_simps)
          ultimately show ?thesis using lt by simp
        qed
      qed
    qed
  qed
qed

lemma finalize_requests:
  "llm_requests (finalize lib now cs session_id st) = requests st"
  by (auto simp: finalize_def stream_text_simps split: sum.splits)

lemma stream_requests_bound:
  "length (llm_requests (stream_chat_response lib tool_functions llm system_prompt now_user
             now_assistant cs session_id user_message)) \<le> max_iterations"
proof (cases "add_message cs session_id ''user'' user_message now_user")
  case (Inl e)
  then show ?thesis by (simp add: stream_chat_response_def)
next
  case (Inr cs1)
  define st0 where "st0 = \<lparr>messages = initial_messages system_prompt (get_history cs1 session_id),
                      full_response = [], tool_results_list = [], events = [], requests = []\<rparr>"
  obtain exc st where run: "run_loop lib tool_functions llm 0 st0 = (exc, st)"
    by (cases "run_loop lib tool_functions llm 0 st0")
  from run_loop_requests_bound[OF run] have "length (requests st) \<le> max_iterations"
    by (simp add: st0_def)
  with Inr run show ?thesis
    by (cases exc) (simp_all add: stream_chat_response_def st0_def[symmetric] finalize_requests)
qed

lemma parse_arguments_ok:
  assumes "\<forall>raw v. json_loads lib raw = Some v \<longrightarrow> (\<exists>d. v = PDict d)"
  shows "\<exists>arguments. parse_arguments lib raw = Inr arguments"
proof (cases "json_loads lib raw")
  case None
  then show ?thesis by (simp add: parse_arguments_def)
next
  case (Some v)
  with assms obtain d where "v = PDict d" by blast
  with Some show ?thesis
    by (simp add: parse_arguments_def convert_strings_to_numbers_def)
qed

lemma classify_tool_calls_ok:
  assumes "\<forall>raw v. json_loads lib raw = Some v \<longrightarrow> (\<exists>d. v = PDict d)"
  shows "\<exists>r. classify_tool_calls lib tcs acc = Inr r"
proof (induction tcs arbitrary: acc)
  case Nil
  show ?case by (cases acc) simp
next
  case (Cons tc tcs)
  obtain valid invalid results where acc: "acc = (valid, invalid, results)"
    using prod_cases3 by blast
  obtain arguments where "parse_arguments lib (tc_arguments tc) = Inr arguments"
    using parse_arguments_ok[OF assms] by blast
  then show ?case
    unfolding acc using Cons.IH by (simp add: Let_def split: prod.splits)
qed

lemma execute_valid_ok:
  "\<exists>r. execute_valid lib tool_functions valid acc = Inr r"
proof (induction valid arbitrary: acc)
  case Nil
  show ?case by (cases acc) simp
next
  case (Cons v valid)
  obtain tc tool_name arguments where v: "v = (tc, tool_name, arguments)"
    by (cases v)
  obtain results tcd msgs where acc: "acc = (results, tcd, msgs)"
    using prod_cases3 by blast
  obtain res where "execute_tool lib tool_functions tool_name arguments = Inr res"
    using execute_tool_returns by blast
  then show ?case
    unfolding v acc using Cons.IH by simp
qed

lemma tool_pass_ok:
  assumes "\<forall>raw v. json_loads lib raw = Some v \<longrightarrow> (\<exists>d. v = PDict d)"
  shows "\<exists>st'. tool_pass lib tool_functions message assistant_content st = Inr st'"
proof -
  obtain valid invalid results1 where
    c: "classify_tool_calls lib (tool_calls message) ([], [], tool_results_list st)
          = Inr (valid, invalid, results1)"
    using classify_tool_calls_ok[OF assms] by (metis prod_cases3)
  obtain results2 tcd msgs where
    e: "execute_valid lib tool_functions valid (results1, [], messages st) = Inr (results2, tcd, msgs)"
    using execute_valid_ok by (metis prod_cases3)
  show ?thesis
    by (simp add: tool_pass_def c e split: prod.splits)
qed

lemma run_loop_reaches_bound:
  assumes tools: "\<forall>k msgs. \<exists>message. llm k msgs = Inr message \<and> tool_calls message \<noteq> []"
    and objs: "\<forall>raw v. json_loads lib raw = Some v \<longrightarrow> (\<exists>d. v = PDict d)"
  shows "\<exists>st'. run_loop lib tool_functions llm iteration st = (None, st')
           \<and> length (requests st') = length (requests st) + (max_iterations - iteration)"
  using tools objs
proof (induction lib tool_functions llm iteration st rule: run_loop.induct)
  case (1 lib tool_functions llm iteration st)
  show ?case
  proof (cases "iteration < max_iterations")
    case False
    then show ?thesis by (simp add: run_loop_stop)
  next
    case lt: True
    obtain message where m: "llm (iteration + 1) (messages st) = Inr message"
      and tc: "tool_calls message \<noteq> []"
      using "1.prems"(1) by blast
    let ?c = "content_or_empty message"
    let ?st2 = "yield_initial ?c (record_request st)"
    obtain st3 where pass: "tool_pass lib tool_functions message ?c ?st2 = Inr st3"
      using tool_pass_ok[OF "1.prems"(2)] by blast
    have r3: "requests st3 = requests st @ [messages st]"
      using tool_pass_frame(1)[OF pass] by (simp add: record_request_simps yield_initial_simps)
    from "1.IH"[OF lt refl m refl tc refl pass "1.prems"]
    obtain st' where "run_loop lib tool_functions llm (iteration + 1) st3 = (None, st')"
      and "length (requests st') = length (requests st3) + (max_iterations - (iteration + 1))"
      by blast
    with lt r3 show ?thesis
      unfolding run_loop_pass[where llm=llm and iteration=iteration and st=st, OF lt m tc pass]
      by auto
  qed
qed

text \<open>
  C2. One call of \<open>stream_chat_response\<close> sends at most 5 requests to the LLM. If the
  model asks for tools on every round trip (and every argument text is a JSON object
  or no JSON at all), the loop started at 0 returns normally after exactly 5 requests,
  with the state it has built; it does not go on.
\<close>

theorem round_trips_bounded:
  "length (llm_requests (stream_chat_response lib tool_functions llm system_prompt now_user
             now_assistant cs session_id user_message)) \<le> 5
 \<and> ((\<forall>k msgs. \<exists>message. llm k msgs = Inr message \<and> tool_calls message \<noteq> [])
      \<and> (\<forall>raw v. json_loads lib raw = Some v \<longrightarrow> (\<exists>d. v = PDict d)) \<longrightarrow>
      (\<exists>st'. run_loop lib tool_functions llm 0 st = (None, st')
         \<and> length (requests st') = length (requests st) + 5))"
proof (intro conjI impI)
  show "length (llm_requests (stream_chat_response lib tool_functions llm system_prompt now_user
             now_assistant cs session_id user_message)) \<le> 5"
    using stream_requests_bound[of lib tool_functions llm system_prompt now_user now_assistant
            cs session_id user_message]
    by (simp add: max_iterations_def)
next
  assume "(\<forall>k msgs. \<exists>message. llm k msgs = Inr message \<and> tool_calls message \<noteq> [])
      \<and> (\<forall>raw v. json_loads lib raw = Some v \<longrightarrow> (\<exists>d. v = PDict d))"
  then show "\<exists>st'. run_loop lib tool_functions llm 0 st = (None, st')
         \<and> length (requests st') = length (requests st) + 5"
    using run_loop_reaches_bound[of llm lib tool_functions 0 st]
    by (simp add: max_iterations_def)
qed

text \<open>A model that asks for \<open>calculate_upfront_costs\<close> on every round trip.\<close>

theorem round_trips_bounded_witness:
  "length (llm_requests (stream_chat_response example_lib TOOL_FUNCTIONS insisting_llm
             ''You are a mortgage advisor.'' ''t1'' ''t2'' example_store ''s1'' ''Hello'')) \<le> 5
 \<and> (\<exists>st'. run_loop example_lib TOOL_FUNCTIONS insisting_llm 0
             \<lparr>messages = [], full_response = [], tool_results_list = [], events = [],
              requests = []\<rparr> = (None, st')
         \<and> length (requests st') = 5)"
proof -
  have a: "\<forall>k msgs. \<exists>message. insisting_llm k msgs = Inr message \<and> tool_calls message \<noteq> []"
    by (simp add: insisting_llm_def)
  have b: "\<forall>raw v. json_loads example_lib raw = Some v \<longrightarrow> (\<exists>d. v = PDict d)"
    by (simp add: example_lib_def plain_lib_def)
  from a b round_trips_bounded[of example_lib TOOL_FUNCTIONS insisting_llm
      "''You are a mortgage advisor.''" "''t1''" "''t2''" example_store "''s1''" "''Hello''"
      "\<lparr>messages = [], full_response = [], tool_results_list = [], events = [], requests = []\<rparr>"]
  show ?thesis by simp
qed











subsection \<open>What one tool pass appends to the transcript\<close>

lemma classify_tool_calls_shape:
  assumes "classify_tool_calls lib tcs (valid0, invalid0, results0) = Inr (valid, invalid, results)"
    and "\<forall>x \<in> set valid0. fst (snd x) = tc_name (fst x)"
    and "\<forall>x \<in> set invalid0. fst (snd x) = tc_name (fst x)"
  shows "map fst valid = map fst valid0 @ filter (passes_validation lib) tcs
       \<and> map fst invalid = map fst invalid0 @ filter (\<lambda>tc. \<not> passes_validation lib tc) tcs
       \<and> (\<forall>x \<in> set valid. fst (snd x) = tc_name (fst x))
       \<and> (\<forall>x \<in> set invalid. fst (snd x) = tc_name (fst x))"
  using assms
proof (induction tcs arbitrary: valid0 invalid0 results0)
  case Nil
  then show ?case by simp
next
  case (Cons tc tcs)
  show ?case
  proof (cases "parse_arguments lib (tc_arguments tc)")
    case (Inl e)
    with Cons.prems(1) show ?thesis by (simp add: Let_def)
  next
    case (Inr arguments)
    obtain is_valid error_msg where
      v: "validate_tool_arguments lib (tc_name tc) arguments = (is_valid, error_msg)"
      by (cases "validate_tool_arguments lib (tc_name tc) arguments")
    show ?thesis
    proof (cases is_valid)
      case True
      with Inr v Cons.prems(1)
      have rest: "classify_tool_calls lib tcs
                    (valid0 @ [(tc, tc_name tc, arguments)], invalid0, results0)
                  = Inr (valid, invalid, results)"
        by (simp add: Let_def)
      have p: "passes_validation lib tc"
        using Inr v True by (simp add: passes_validation_def)
      from Cons.IH[OF rest] Cons.prems(2,3) p show ?thesis by simp
    next
      case False
      with Inr v Cons.prems(1)
      have rest: "classify_tool_calls lib tcs
                    (valid0, invalid0 @ [(tc, tc_name tc, arguments, error_msg)],
                     results0 @ [result_entry (tc_name tc) arguments (skipped_result error_msg)])
                  = Inr (valid, invalid, results)"
        by (simp add: Let_def)
      have p: "\<not> passes_validation lib tc"
        using Inr v False by (simp add: passes_validation_def)
      from Cons.IH[OF rest] Cons.prems(2,3) p show ?thesis by simp
    qed
  qed
qed

lemma map_over_fst: "map (\<lambda>x. g (fst x)) xs = map g (map fst xs)"
  by (simp add: comp_def)

lemma tool_message_fields:
  "dict_get (tool_message lib tc res) ''role'' PNone = PStr ''tool''"
  "dict_get (tool_message lib tc res) ''tool_call_id'' PNone = PStr (tc_id tc)"
  by (simp_all add: tool_message_def dict_get_def)

lemma execute_valid_shape:
  assumes "execute_valid lib tool_functions valid (results0, tcd0, msgs0) = Inr (results, tcd, msgs)"
    and "\<forall>x \<in> set valid. fst (snd x) = tc_name (fst x)"
  shows "tcd = tcd0 @ map (\<lambda>x. call_data (fst x) (tc_name (fst x))) valid
       \<and> (\<exists>turns. msgs = msgs0 @ turns
             \<and> map (\<lambda>t. dict_get t ''tool_call_id'' PNone) turns
                 = map (\<lambda>x. PStr (tc_id (fst x))) valid
             \<and> (\<forall>t \<in> set turns. dict_get t ''role'' PNone = PStr ''tool''))"
  using assms
proof (induction valid arbitrary: results0 tcd0 msgs0)
  case Nil
  then show ?case by simp
next
  case (Cons v valid)
  obtain tc tool_name arguments where vv: "v = (tc, tool_name, arguments)"
    by (cases v)
  have nm: "tool_name = tc_name tc"
    using Cons.prems(2) vv by simp
  obtain res where res: "execute_tool lib tool_functions tool_name arguments = Inr res"
    using execute_tool_returns by blast
  from Cons.prems(1) vv res
  have rest: "execute_valid lib tool_functions valid
                (results0 @ [result_entry tool_name arguments res],
                 tcd0 @ [call_data tc tool_name],
                 msgs0 @ [tool_message lib tc res]) = Inr (results, tcd, msgs)"
    by simp
  from Cons.IH[OF rest] Cons.prems(2)
  obtain turns where t: "tcd = (tcd0 @ [call_data tc tool_name])
                               @ map (\<lambda>x. call_data (fst x) (tc_name (fst x))) valid"
    "msgs = (msgs0 @ [tool_message lib tc res]) @ turns"
    "map (\<lambda>t. dict_get t ''tool_call_id'' PNone) turns = map (\<lambda>x. PStr (tc_id (fst x))) valid"
    "\<forall>t \<in> set turns. dict_get t ''role'' PNone = PStr ''tool''"
    by auto
  show ?case
  proof (intro conjI exI[of _ "tool_message lib tc res # turns"])
    show "tcd = tcd0 @ map (\<lambda>x. call_data (fst x) (tc_name (fst x))) (v # valid)"
      using t(1) vv nm by simp
    show "msgs = msgs0 @ tool_message lib tc res # turns"
      using t(2) by simp
    show "map (\<lambda>t. dict_get t ''tool_call_id'' PNone) (tool_message lib tc res # turns)
            = map (\<lambda>x. PStr (tc_id (fst x))) (v # valid)"
      using t(3) vv by (simp add: tool_message_fields)
    show "\<forall>t \<in> set (tool_message lib tc res # turns). dict_get t ''role'' PNone = PStr ''tool''"
      using t(4) by (simp add: tool_message_fields)
  qed
qed

lemma record_invalid_shape:
  assumes "record_invalid lib invalid (tcd0, msgs0) = (tcd, msgs)"
    and "\<forall>x \<in> set invalid. fst (snd x) = tc_name (fst x)"
  shows "tcd = tcd0 @ map (\<lambda>x. call_data (fst x) (tc_name (fst x))) invalid
       \<and> (\<exists>turns. msgs = msgs0 @ turns
             \<and> map (\<lambda>t. dict_get t ''tool_call_id'' PNone) turns
                 = map (\<lambda>x. PStr (tc_id (fst x))) invalid
             \<and> (\<forall>t \<in> set turns. dict_get t ''role'' PNone = PStr ''tool''))"
  using assms
proof (induction invalid arbitrary: tcd0 msgs0)
  case Nil
  then show ?case by simp
next
  case (Cons v invalid)
  obtain tc tool_name arguments error_msg where vv: "v = (tc, tool_name, arguments, error_msg)"
    by (cases v)
  have nm: "tool_name = tc_name tc"
    using Cons.prems(2) vv by simp
  let ?m = "tool_message lib tc (skipped_result error_msg)"
  from Cons.prems(1) vv
  have rest: "record_invalid lib invalid (tcd0 @ [call_data tc tool_name], msgs0 @ [?m])
                = (tcd, msgs)"
    by simp
  from Cons.IH[OF rest] Cons.prems(2)
  obtain turns where t: "tcd = (tcd0 @ [call_data tc tool_name])
                               @ map (\<lambda>x. call_data (fst x) (tc_name (fst x))) invalid"
    "msgs = (msgs0 @ [?m]) @ turns"
    "map (\<lambda>t. dict_get t ''tool_call_id'' PNone) turns = map (\<lambda>x. PStr (tc_id (fst x))) invalid"
    "\<forall>t \<in> set turns. dict_get t ''role'' PNone = PStr ''tool''"
    by auto
  show ?case
  proof (intro conjI exI[of _ "?m # turns"])
    show "tcd = tcd0 @ map (\<lambda>x. call_data (fst x) (tc_name (fst x))) (v # invalid)"
      using t(1) vv nm by simp
    show "msgs = msgs0 @ ?m # turns"
      using t(2) by simp
    show "map (\<lambda>t. dict_get t ''tool_call_id'' PNone) (?m # turns)
            = map (\<lambda>x. PStr (tc_id (fst x))) (v # invalid)"
      using t(3) vv by (simp add: tool_message_fields)
    show "\<forall>t \<in> set (?m # turns). dict_get t ''role'' PNone = PStr ''tool''"
      using t(4) by (simp add: tool_message_fields)
  qed
qed

text \<open>
  Every tool pass that completes appends, for the calls that pass validation and then
  for the calls that fail it, one tool turn per call (paired by \<open>tool_call_id\<close>), and
  after all of them the assistant turn that lists the same calls in the same order.
\<close>

theorem tool_pass_transcript:
  assumes pass: "tool_pass lib tool_functions message assistant_content st = Inr st'"
    and calls: "tool_calls message \<noteq> []"
  shows "\<exists>turns.
           messages st' =
             messages st @ turns
             @ [assistant_message assistant_content
                  (map (\<lambda>tc. call_data tc (tc_name tc))
                     (filter (passes_validation lib) (tool_calls message)
                      @ filter (\<lambda>tc. \<not> passes_validation lib tc) (tool_calls message)))]
         \<and> map (\<lambda>t. dict_get t ''tool_call_id'' PNone) turns =
             map (\<lambda>tc. PStr (tc_id tc))
               (filter (passes_validation lib) (tool_calls message)
                @ filter (\<lambda>tc. \<not> passes_validation lib tc) (tool_calls message))
         \<and> (\<forall>t \<in> set turns. dict_get t ''role'' PNone = PStr ''tool'')
         \<and> length turns = length (tool_calls message)"
proof -
  let ?tcs = "tool_calls message"
  let ?ok = "filter (passes_validation lib) ?tcs"
  let ?bad = "filter (\<lambda>tc. \<not> passes_validation lib tc) ?tcs"
  from pass obtain valid invalid results1 where
    c: "classify_tool_calls lib ?tcs ([], [], tool_results_list st) = Inr (valid, invalid, results1)"
    by (auto simp: tool_pass_def split: sum.splits prod.splits)
  from pass c obtain results2 tcd1 msgs1 where
    e: "execute_valid lib tool_functions valid (results1, [], messages st)
          = Inr (results2, tcd1, msgs1)"
    by (auto simp: tool_pass_def split: sum.splits prod.splits)
  obtain tcd msgs2 where r: "record_invalid lib invalid (tcd1, msgs1) = (tcd, msgs2)"
    by (cases "record_invalid lib invalid (tcd1, msgs1)")
  from classify_tool_calls_shape[OF c]
  have cv: "map fst valid = ?ok" and ci: "map fst invalid = ?bad"
    and nv: "\<forall>x \<in> set valid. fst (snd x) = tc_name (fst x)"
    and ni: "\<forall>x \<in> set invalid. fst (snd x) = tc_name (fst x)"
    by simp_all
  from execute_valid_shape[OF e nv] obtain turns1 where
    t1: "tcd1 = map (\<lambda>x. call_data (fst x) (tc_name (fst x))) valid"
        "msgs1 = messages st @ turns1"
        "map (\<lambda>t. dict_get t ''tool_call_id'' PNone) turns1 = map (\<lambda>x. PStr (tc_id (fst x))) valid"
        "\<forall>t \<in> set turns1. dict_get t ''role'' PNone = PStr ''tool''"
    by auto
  from record_invalid_shape[OF r ni] obtain turns2 where
    t2: "tcd = tcd1 @ map (\<lambda>x. call_data (fst x) (tc_name (fst x))) invalid"
        "msgs2 = msgs1 @ turns2"
        "map (\<lambda>t. dict_get t ''tool_call_id'' PNone) turns2 = map (\<lambda>x. PStr (tc_id (fst x))) invalid"
        "\<forall>t \<in> set turns2. dict_get t ''role'' PNone = PStr ''tool''"
    by auto
  have m1: "map (\<lambda>x. call_data (fst x) (tc_name (fst x))) valid
              = map (\<lambda>tc. call_data tc (tc_name tc)) ?ok"
    using map_over_fst[of "\<lambda>tc. call_data tc (tc_name tc)" valid] cv by simp
  have m2: "map (\<lambda>x. call_data (fst x) (tc_name (fst x))) invalid
              = map (\<lambda>tc. call_data tc (tc_name tc)) ?bad"
    using map_over_fst[of "\<lambda>tc. call_data tc (tc_name tc)" invalid] ci by simp
  have i1: "map (\<lambda>x. PStr (tc_id (fst x))) valid = map (\<lambda>tc. PStr (tc_id tc)) ?ok"
    using map_over_fst[of "\<lambda>tc. PStr (tc_id tc)" valid] cv by simp
  have i2: "map (\<lambda>x. PStr (tc_id (fst x))) invalid = map (\<lambda>tc. PStr (tc_id tc)) ?bad"
    using map_over_fst[of "\<lambda>tc. PStr (tc_id tc)" invalid] ci by simp
  have len: "length ?ok + length ?bad = length ?tcs"
    by (rule sum_length_filter_compl)
  have tcd: "tcd = map (\<lambda>tc. call_data tc (tc_name tc)) (?ok @ ?bad)"
    using t1(1) t2(1) m1 m2 by simp
  have ne: "tcd \<noteq> []"
    using tcd len calls by auto
  have st': "messages st' = msgs2 @ [assistant_message assistant_content tcd]"
    using pass c e r ne by (auto simp: tool_pass_def)
  have l1: "length turns1 = length ?ok"
    using arg_cong[OF t1(3), of length] i1 by simp
  have l2: "length turns2 = length ?bad"
    using arg_cong[OF t2(3), of length] i2 by simp
  show ?thesis
  proof (intro exI[of _ "turns1 @ turns2"] conjI)
    show "messages st' = messages st @ (turns1 @ turns2)
            @ [assistant_message assistant_content
                 (map (\<lambda>tc. call_data tc (tc_name tc)) (?ok @ ?bad))]"
      using st' t1(2) t2(2) tcd by simp
    show "map (\<lambda>t. dict_get t ''tool_call_id'' PNone) (turns1 @ turns2)
            = map (\<lambda>tc. PStr (tc_id tc)) (?ok @ ?bad)"
      using t1(3) t2(3) i1 i2 by simp
    show "\<forall>t \<in> set (turns1 @ turns2). dict_get t ''role'' PNone = PStr ''tool''"
      using t1(4) t2(4) by auto
    show "length (turns1 @ turns2) = length ?tcs"
      using l1 l2 len by simp
  qed
qed

subsection \<open>Worked runs\<close>

lemmas run_defs = stream_chat_response_def add_message_def get_history_def initial_messages_def
  example_store_def example_lib_def plain_lib_def dict_get_def
  run_loop.simps max_iterations_def record_request_def content_or_empty_def yield_initial_def
  tool_pass_def parse_arguments_def convert_strings_to_numbers_def
  validate_tool_arguments_def required_params_def positive_params_def has_key_def
  not_positive_def invalid_entry_def py_str_def digit_char_def
  skipped_result_def result_entry_def call_data_def tool_message_def assistant_message_def
  finalize_def stream_text_def chunk_size_def chunks.simps
  format_tool_results_response_def format_one_def exc_bind_def Let_def


text \<open>
  C1 on a concrete answer with two tool calls, \<open>call_1\<close> (skipped by the validator)
  and \<open>call_2\<close> (executed). The transcript of the second request holds one tool
  turn per call, and the assistant turn that lists both calls comes after them, not
  before: the code appends the tool turns inside its two loops and the assistant
  turn at the end of the pass (\<open>tool_pass_transcript\<close> has this for every pass).
\<close>

theorem tool_results_precede_assistant_turn:
  "llm_requests (stream_chat_response example_lib TOOL_FUNCTIONS two_calls_llm
       ''You are a mortgage advisor.'' ''t1'' ''t2'' example_store ''s1'' ''Can I afford it?'') =
     [[[(''role'', PStr ''system''), (''content'', PStr ''You are a mortgage advisor.'')],
       [(''role'', PStr ''user''), (''content'', PStr ''Can I afford it?'')]],
      [[(''role'', PStr ''system''), (''content'', PStr ''You are a mortgage advisor.'')],
       [(''role'', PStr ''user''), (''content'', PStr ''Can I afford it?'')],
       [(''role'', PStr ''tool''), (''tool_call_id'', PStr ''call_2''),
        (''content'', PStr ''<json>'')],
       [(''role'', PStr ''tool''), (''tool_call_id'', PStr ''call_1''),
        (''content'', PStr ''<json>'')],
       [(''role'', PStr ''assistant''), (''content'', PStr []),
        (''tool_calls'',
         PList [PDict [(''id'', PStr ''call_2''), (''type'', PStr ''function''),
                       (''function'',
                        PDict [(''name'', PStr ''calculate_upfront_costs''),
                               (''arguments'', PStr costs_arguments)])],
                PDict [(''id'', PStr ''call_1''), (''type'', PStr ''function''),
                       (''function'',
                        PDict [(''name'', PStr ''check_ltv''),
                               (''arguments'', PStr ltv_arguments)])]])]]]"
  by (simp add: run_defs two_calls_llm_def execute_tool_def TOOL_FUNCTIONS_def try_except_def
        ltv_arguments_def costs_arguments_def dq_def
        call_calculate_upfront_costs_def bind_keywords_def calculate_upfront_costs_def)


end
